theory Spec2Isabelle
  imports Main "HOL-Library.Word"
begin

unbundle bit_operations_syntax

section \<open>The XBeeBoot transport of avrdude (xbee.c)\<close>

text \<open>
  A shallow embedding of \<^verbatim>\<open>src/xbeeboot/avrdude/xbee.c\<close>. Every C function that
  is modelled keeps its name. The session structure is a record that the functions take
  and return; the serial port below the session, and the wall clock read by
  \<^verbatim>\<open>gettimeofday\<close>, are part of that record, so that every byte read or written
  is visible in the state. Calls to \<^verbatim>\<open>avrdude_message\<close> only log and are left out,
  and so is the \<^verbatim>\<open>detail\<close> argument that is passed on to them.
\<close>

subsection \<open>Constants\<close>

type_synonym byte = "8 word"

definition XBEE_DEFAULT_RESET_PIN :: int where
  "XBEE_DEFAULT_RESET_PIN = 3"



definition XBEE_MAX_INTERMEDIATE_HOPS :: nat where
  "XBEE_MAX_INTERMEDIATE_HOPS = 40"

definition XBEEBOOT_PACKET_TYPE_ACK :: int where
  "XBEEBOOT_PACKET_TYPE_ACK = 0"

definition XBEEBOOT_PACKET_TYPE_REQUEST :: int where
  "XBEEBOOT_PACKET_TYPE_REQUEST = 1"

definition XBEE_STATS_GROUPS :: nat where
  "XBEE_STATS_GROUPS = 4"

definition XBEE_STATS_FRAME_LOCAL :: nat where
  "XBEE_STATS_FRAME_LOCAL = 0"

definition XBEE_STATS_FRAME_REMOTE :: nat where
  "XBEE_STATS_FRAME_REMOTE = 1"

definition XBEE_STATS_TRANSMIT :: nat where
  "XBEE_STATS_TRANSMIT = 2"

definition XBEE_STATS_RECEIVE :: nat where
  "XBEE_STATS_RECEIVE = 3"

subsection \<open>Sequence numbers\<close>

text \<open>
  The three counters are \<^verbatim>\<open>unsigned char\<close>, and each is advanced by the loop
  \<^verbatim>\<open>while ((++x & 0xff) == 0);\<close>. The loop is kept as a loop: it increments, and
  goes round again when the incremented value is zero.
\<close>

lemma byte_and_ff: "(y::byte) AND 0xff = y"
proof -
  have "(0xff::byte) = -1"
    by simp
  then show ?thesis
    by (simp only: and.right_neutral word_and_max)
qed

function next_sequence :: "byte \<Rightarrow> byte" where
  "next_sequence x = (let y = x + 1 in if y AND 0xff = 0 then next_sequence y else y)"
  by pat_completeness auto
termination
proof (relation "measure (\<lambda>x. if x + 1 = 0 then 1 else 0)")
  show "wf (measure (\<lambda>x::byte. if x + 1 = 0 then 1 else 0))"
    by simp
next
  fix x y :: byte
  assume "y = x + 1" and "y AND 0xff = 0"
  then have "y = 0"
    by (simp only: byte_and_ff)
  with \<open>y = x + 1\<close> show "(y, x) \<in> measure (\<lambda>x. if x + 1 = 0 then 1 else 0)"
    by simp
qed

declare next_sequence.simps [simp del]

subsection \<open>Chunk size of a send\<close>



subsection \<open>Statistics\<close>

record timeval =
  tv_sec :: int
  tv_usec :: int

text \<open>
  \<^verbatim>\<open>struct XBeeStaticticsSummary\<close>. The field \<^verbatim>\<open>sum\<close> is \<open>sum_tv\<close> here, and
  \<^verbatim>\<open>samples\<close> (an \<^verbatim>\<open>unsigned long\<close> of 64 bits) is a natural number below
  \<open>2 ^ 64\<close>, where \<^verbatim>\<open>samples++\<close> wraps. The times are \<^verbatim>\<open>long\<close> values, taken
  within the range of \<^verbatim>\<open>long\<close> in the sums and differences of \<^verbatim>\<open>xbeeStatsAdd\<close>
  and \<^verbatim>\<open>xbeedev_stats_receive\<close>.
\<close>

record XBeeStaticticsSummary =
  minimum :: timeval
  maximum :: timeval
  sum_tv :: timeval
  samples :: nat

definition xbeeStatsReset :: "XBeeStaticticsSummary \<Rightarrow> XBeeStaticticsSummary" where
  "xbeeStatsReset summary =
     summary\<lparr>minimum := \<lparr>tv_sec = 0, tv_usec = 0\<rparr>,
             maximum := \<lparr>tv_sec = 0, tv_usec = 0\<rparr>,
             sum_tv := \<lparr>tv_sec = 0, tv_usec = 0\<rparr>,
             samples := 0\<rparr>"

definition xbeeStatsAdd :: "XBeeStaticticsSummary \<Rightarrow> timeval \<Rightarrow> XBeeStaticticsSummary" where
  "xbeeStatsAdd summary sample =
     (let usec = tv_usec (sum_tv summary) + tv_usec sample;
          carried = (if usec > 1000000
                     then \<lparr>tv_sec = tv_sec (sum_tv summary) + 1, tv_usec = usec - 1000000\<rparr>
                     else \<lparr>tv_sec = tv_sec (sum_tv summary), tv_usec = usec\<rparr>);
          s1 = summary\<lparr>sum_tv := carried\<lparr>tv_sec := tv_sec carried + tv_sec sample\<rparr>\<rparr>;
          s2 = (if samples s1 = 0 \<or> tv_sec (minimum s1) > tv_sec sample \<or>
                   (tv_sec (minimum s1) = tv_sec sample \<and> tv_usec (minimum s1) > tv_usec sample)
                then s1\<lparr>minimum := sample\<rparr> else s1);
          s3 = (if tv_sec (maximum s2) < tv_sec sample \<or>
                   (tv_sec (maximum s2) = tv_sec sample \<and> tv_usec (maximum s2) < tv_usec sample)
                then s2\<lparr>maximum := sample\<rparr> else s2)
      in s3\<lparr>samples := (samples s3 + 1) mod 2 ^ 64\<rparr>)"

text \<open>
  \<^verbatim>\<open>xbeeStatsSummarise\<close> prints the minimum, the maximum and the average. The average
  divides by \<^verbatim>\<open>samples\<close> three times, with no test before; an integer division by
  zero is undefined in C (a trap on the usual hosts), and it is a result of its own
  here. Otherwise the result is the average that is printed.

  The arithmetic is the unsigned arithmetic of the source, with \<^verbatim>\<open>long\<close>,
  \<^verbatim>\<open>unsigned long\<close> and \<^verbatim>\<open>unsigned long long\<close> of 64 bits: \<^verbatim>\<open>sum.tv_sec\<close> and
  \<^verbatim>\<open>sum.tv_usec\<close> are converted to unsigned (\<open>u64\<close>) before the divisions, sums
  and products wrap at \<open>2 ^ 64\<close>, and what is stored in \<^verbatim>\<open>average.tv_sec\<close> is
  converted back to \<^verbatim>\<open>long\<close> (\<open>s64\<close>).
\<close>

datatype fault = DivisionByZero

definition u64 :: "int \<Rightarrow> int" where
  "u64 x = x mod 2 ^ 64"

definition s64 :: "int \<Rightarrow> int" where
  "s64 x = (if u64 x \<ge> 2 ^ 63 then u64 x - 2 ^ 64 else u64 x)"

definition xbeeStatsSummarise :: "XBeeStaticticsSummary \<Rightarrow> fault + timeval" where
  "xbeeStatsSummarise summary =
     (let n = int (samples summary) in
      if n = 0 then Inl DivisionByZero
      else
        let average_sec = s64 (u64 (tv_sec (sum_tv summary)) div n);
            usecs = u64 (u64 (tv_usec (sum_tv summary)) +
                         u64 ((u64 (tv_sec (sum_tv summary)) mod n) * 1000000));
            usecs' = usecs div n
        in Inr \<lparr>tv_sec = s64 (u64 average_sec + usecs' div 1000000),
                tv_usec = usecs' mod 1000000\<rparr>)"

subsection \<open>The serial port and the clock\<close>

text \<open>
  The serial device below the session (\<^verbatim>\<open>xbs->serialDevice\<close> with
  \<^verbatim>\<open>xbs->serialDescriptor\<close>) is outside the source. It is a script: \<open>rx\<close> lists what
  the coming one-byte \<^verbatim>\<open>recv\<close> calls return, a byte or a failure (return code
  \<open>-1\<close>, a timeout or an error), and once the list is used up every \<^verbatim>\<open>recv\<close> times
  out; \<open>tx\<close> is the log of the byte strings handed to \<^verbatim>\<open>send\<close>, and
  \<open>tx_result n\<close> is the return code of the send that follows \<open>n\<close> earlier ones;
  \<open>dtr_rts\<close> logs the arguments of \<^verbatim>\<open>set_dtr_rts\<close>, with \<open>ctl_result\<close> for
  its return codes.
\<close>

datatype rx_event = Rx byte | RxFail

record serial_port =
  rx :: "rx_event list"
  tx :: "byte list list"
  tx_result :: "nat \<Rightarrow> int"
  dtr_rts :: "int list"
  ctl_result :: "nat \<Rightarrow> int"

definition serial_send :: "serial_port \<Rightarrow> byte list \<Rightarrow> int \<times> serial_port" where
  "serial_send p bytes = (tx_result p (length (tx p)), p\<lparr>tx := tx p @ [bytes]\<rparr>)"

definition serial_set_dtr_rts :: "serial_port \<Rightarrow> int \<Rightarrow> int \<times> serial_port" where
  "serial_set_dtr_rts p is_on =
     (ctl_result p (length (dtr_rts p)), p\<lparr>dtr_rts := dtr_rts p @ [is_on]\<rparr>)"

subsection \<open>The session\<close>

text \<open>
  \<^verbatim>\<open>struct XBeeBootSession\<close>. The three \<^verbatim>\<open>int\<close> flags are booleans. The byte arrays
  \<^verbatim>\<open>xbee_address\<close> (10 bytes) and \<^verbatim>\<open>sourceRoute\<close> (80 bytes) are lists. The ring
  \<^verbatim>\<open>inBuffer[256]\<close> is a table indexed by a byte, and its two cursors, which the
  source resets to 0 when they reach 256, are bytes that wrap at 256. The two statistics
  tables are indexed by \<^verbatim>\<open>group * 256 + sequence\<close> and by the group. \<open>clock\<close> and
  \<open>ticks\<close> are the wall clock: the \<open>n\<close>-th call of \<^verbatim>\<open>gettimeofday\<close> reads
  \<open>clock n\<close>.
\<close>

record XBeeBootSession =
  serialDescriptor :: serial_port
  clock :: "nat \<Rightarrow> timeval"
  ticks :: nat
  xbee_address :: "byte list"
  directMode :: bool
  outSequence :: byte
  inSequence :: byte
  txSequence :: byte
  transportUnusable :: bool
  xbeeResetPin :: int
  inInIndex :: byte
  inOutIndex :: byte
  inBuffer :: "byte \<Rightarrow> byte"
  sourceRouteHops :: int
  sourceRouteChanged :: bool
  sourceRoute :: "byte list"
  sequenceStatistics :: "nat \<Rightarrow> timeval"
  groupSummary :: "nat \<Rightarrow> XBeeStaticticsSummary"

definition gettimeofday :: "XBeeBootSession \<Rightarrow> timeval \<times> XBeeBootSession" where
  "gettimeofday xbs = (clock xbs (ticks xbs), xbs\<lparr>ticks := ticks xbs + 1\<rparr>)"

text \<open>
  \<^verbatim>\<open>XBeeBootSessionInit\<close> works on the memory that \<^verbatim>\<open>malloc\<close> returned: the
  argument is the session with whatever that memory held. The two nested
  \<^verbatim>\<open>for\<close> loops run over \<^verbatim>\<open>group < 3\<close> and \<^verbatim>\<open>index < 256\<close>, and the inner
  one writes \<^verbatim>\<open>sendTime.tv_sec\<close> only; \<open>stats_clear_index\<close> is the body of the
  inner loop and \<open>stats_clear_group\<close> the body of the outer one.
\<close>

definition stats_clear_index :: "nat \<Rightarrow> nat \<Rightarrow> XBeeBootSession \<Rightarrow> XBeeBootSession" where
  "stats_clear_index grp index xbs =
     xbs\<lparr>sequenceStatistics :=
           (sequenceStatistics xbs)
             (grp * 256 + index := (sequenceStatistics xbs (grp * 256 + index))\<lparr>tv_sec := 0\<rparr>)\<rparr>"

definition stats_clear_group :: "nat \<Rightarrow> XBeeBootSession \<Rightarrow> XBeeBootSession" where
  "stats_clear_group grp xbs =
     (let xbs' = fold (stats_clear_index grp) [0..<256] xbs
      in xbs'\<lparr>groupSummary :=
               (groupSummary xbs')(grp := xbeeStatsReset (groupSummary xbs' grp))\<rparr>)"

definition XBeeBootSessionInit :: "XBeeBootSession \<Rightarrow> XBeeBootSession" where
  "XBeeBootSessionInit xbs =
     fold stats_clear_group [0..<3]
       (xbs\<lparr>directMode := True,
             xbeeResetPin := XBEE_DEFAULT_RESET_PIN,
             outSequence := 0,
             inSequence := 0,
             txSequence := 0,
             transportUnusable := False,
             inInIndex := 0,
             inOutIndex := 0,
             sourceRouteHops := - 1,
             sourceRouteChanged := False\<rparr>)"

definition xbeedev_setresetpin :: "XBeeBootSession \<Rightarrow> int \<Rightarrow> XBeeBootSession" where
  "xbeedev_setresetpin xbs pin = xbs\<lparr>xbeeResetPin := pin\<rparr>"

definition xbeedev_stats_send ::
  "XBeeBootSession \<Rightarrow> nat \<Rightarrow> byte \<Rightarrow> timeval \<Rightarrow> XBeeBootSession" where
  "xbeedev_stats_send xbs grp sequence sendTime =
     xbs\<lparr>sequenceStatistics :=
           (sequenceStatistics xbs)(grp * 256 + unat sequence := sendTime)\<rparr>"

definition xbeedev_stats_receive ::
  "XBeeBootSession \<Rightarrow> nat \<Rightarrow> byte \<Rightarrow> timeval \<Rightarrow> XBeeBootSession" where
  "xbeedev_stats_receive xbs grp sequence receiveTime =
     (let stats = sequenceStatistics xbs (grp * 256 + unat sequence);
          secs = tv_sec receiveTime - tv_sec stats;
          usecs = tv_usec receiveTime - tv_usec stats;
          delay = (if usecs < 0 then \<lparr>tv_sec = secs - 1, tv_usec = usecs + 1000000\<rparr>
                   else \<lparr>tv_sec = secs, tv_usec = usecs\<rparr>)
      in xbs\<lparr>groupSummary :=
               (groupSummary xbs)(grp := xbeeStatsAdd (groupSummary xbs grp) delay)\<rparr>)"

subsection \<open>The frame encoder\<close>

text \<open>
  \<^verbatim>\<open>sendAPIRequest\<close> builds a frame with the macro \<^verbatim>\<open>fpput\<close>, which appends a byte
  at \<^verbatim>\<open>fp\<close>, escaped if need be, and keeps the running \<^verbatim>\<open>checksum\<close> and
  \<^verbatim>\<open>length\<close> (both \<^verbatim>\<open>unsigned char\<close>; \<open>len\<close> here). The builder holds the bytes
  written from \<^verbatim>\<open>dataStart\<close> on.
\<close>

record frame_builder =
  fp :: "byte list"
  checksum :: byte
  len :: byte

definition builder0 :: frame_builder where
  "builder0 = \<lparr>fp = [], checksum = 0xff, len = 0\<rparr>"

definition fpput :: "byte \<Rightarrow> frame_builder \<Rightarrow> frame_builder" where
  "fpput v b =
     b\<lparr>fp := fp b @ (if v = 0x7d \<or> v = 0x7e \<or> v = 0x11 \<or> v = 0x13
                     then [0x7d, v XOR 0x20] else [v]),
       checksum := checksum b - v,
       len := len b + 1\<rparr>"

text \<open>
  The end of \<^verbatim>\<open>sendAPIRequest\<close>, from \<^verbatim>\<open>unescapedLength\<close> on: the checksum is
  appended, then the delimiter and the two length bytes are written with \<^verbatim>\<open>fpput\<close>
  at the start of \<^verbatim>\<open>frame\<close> and moved up against the data. The result is the byte
  string handed to the serial \<^verbatim>\<open>send\<close>.

  \<^verbatim>\<open>frame\<close> has 256 bytes and the data starts at \<^verbatim>\<open>frame[5]\<close>: the source writes
  outside the array when the escaped data and checksum take more than 251 bytes.
  \<open>frame_fits\<close> says that they do not.
\<close>

definition frame_bytes :: "frame_builder \<Rightarrow> byte list" where
  "frame_bytes b =
     (let unescapedLength = len b;
          b' = fpput (checksum b) b;
          prefix = fp (fpput unescapedLength (fpput 0 (b'\<lparr>fp := [0x7e]\<rparr>)))
      in prefix @ fp b')"

definition frame_fits :: "frame_builder \<Rightarrow> bool" where
  "frame_fits b = (5 + length (fp (fpput (checksum b) b)) \<le> 256)"

text \<open>The frame for a given unescaped content: each byte of it goes through \<^verbatim>\<open>fpput\<close>.\<close>

definition encode_frame :: "byte list \<Rightarrow> byte list" where
  "encode_frame content = frame_bytes (fold fpput content builder0)"

text \<open>
  The part of \<^verbatim>\<open>sendAPIRequest\<close> after the addressing block: the optional bytes, the
  data, and the send.
\<close>

definition sendAPIRequest_tail ::
  "XBeeBootSession \<Rightarrow> frame_builder \<Rightarrow> timeval \<Rightarrow> int \<Rightarrow> int \<Rightarrow> int \<Rightarrow> int \<Rightarrow> int \<Rightarrow>
   byte list \<Rightarrow> int \<times> XBeeBootSession" where
  "sendAPIRequest_tail xbs b0 time prePayload1 prePayload2 packetType sequence appType data =
     (let b1 = (if prePayload1 \<ge> 0 then fpput (word_of_int prePayload1) b0 else b0);
          b2 = (if prePayload2 \<ge> 0 then fpput (word_of_int prePayload2) b1 else b1);
          b3 = (if packetType \<ge> 0 then fpput (word_of_int packetType) b2 else b2);
          b4 = (if sequence \<ge> 0 then fpput (word_of_int sequence) b3 else b3);
          xbs1 = (if sequence \<ge> 0 \<and> packetType = XBEEBOOT_PACKET_TYPE_REQUEST
                  then xbeedev_stats_send xbs XBEE_STATS_TRANSMIT (word_of_int sequence) time
                  else xbs);
          b5 = (if appType \<ge> 0 then fpput (word_of_int appType) b4 else b4);
          b6 = fold fpput data b5;
          (rc, port) = serial_send (serialDescriptor xbs1) (frame_bytes b6)
      in (rc, xbs1\<lparr>serialDescriptor := port\<rparr>))"

text \<open>
  \<^verbatim>\<open>sendAPIRequest\<close>. An absent optional field is a negative \<^verbatim>\<open>int\<close>, as in the
  source; \<open>data\<close> is the \<^verbatim>\<open>dataLength\<close> bytes at \<^verbatim>\<open>data\<close>. The function calls
  itself once, for the Create Source Route frame, and that call does not call again.
\<close>

function sendAPIRequest ::
  "XBeeBootSession \<Rightarrow> byte \<Rightarrow> int \<Rightarrow> int \<Rightarrow> int \<Rightarrow> int \<Rightarrow> int \<Rightarrow> int \<Rightarrow> int \<Rightarrow> nat \<Rightarrow>
   byte list \<Rightarrow> int \<times> XBeeBootSession" where
  "sendAPIRequest xbs apiType txSeq apiOption prePayload1 prePayload2 packetType sequence
       appType frameGroup data =
     (let (time, xbs1) = gettimeofday xbs;
          b1 = fpput apiType builder0;
          b2 = (if apiOption \<ge> 0 then fpput (word_of_int apiOption) b1 else b1);
          b3 = (if txSeq \<ge> 0 then fpput (word_of_int txSeq) b2 else b2);
          xbs2 = (if txSeq \<ge> 0
                  then xbeedev_stats_send xbs1 frameGroup (word_of_int txSeq) time
                  else xbs1)
      in if apiType \<noteq> 0x08 then
           let b4 = fold fpput (take 10 (xbee_address xbs2)) b3
           in if apiType \<noteq> 0x21 \<and> sourceRouteChanged xbs2 then
                (case sendAPIRequest xbs2 0x21 0 (- 1) 0 (sourceRouteHops xbs2) (- 1) (- 1) (- 1)
                        XBEE_STATS_FRAME_LOCAL
                        (take (nat (sourceRouteHops xbs2 * 2)) (sourceRoute xbs2)) of
                   (rc, xbs3) \<Rightarrow>
                     if rc \<noteq> 0 then (rc, xbs3)
                     else sendAPIRequest_tail (xbs3\<lparr>sourceRouteChanged := False\<rparr>) b4 time
                            prePayload1 prePayload2 packetType sequence appType data)
              else sendAPIRequest_tail xbs2 b4 time
                     prePayload1 prePayload2 packetType sequence appType data
         else sendAPIRequest_tail xbs2 b3 time
                prePayload1 prePayload2 packetType sequence appType data)"
  by pat_completeness auto
termination
  by (relation "measure (\<lambda>(xbs, apiType, rest). if apiType = 0x21 then 0 else 1)") auto

declare sendAPIRequest.simps [simp del]

definition sendPacket ::
  "XBeeBootSession \<Rightarrow> byte \<Rightarrow> byte \<Rightarrow> int \<Rightarrow> byte list \<Rightarrow> int \<times> XBeeBootSession" where
  "sendPacket xbs packetType sequence appType data =
     (let (apiType, prePayload1, prePayload2) =
            (if directMode xbs then (0x90, - 1, - 1) else (0x10, 0, 0));
          xbs1 = xbs\<lparr>txSequence := next_sequence (txSequence xbs)\<rparr>
      in sendAPIRequest xbs1 apiType (uint (txSequence xbs1)) (- 1) prePayload1 prePayload2
           (uint packetType) (uint sequence) appType XBEE_STATS_FRAME_REMOTE data)"

subsection \<open>The frame decoder\<close>

text \<open>
  The first half of the loop body of \<^verbatim>\<open>xbeedev_poll\<close>, up to the end of the frame.
  The two labels \<^verbatim>\<open>before_frame\<close> and \<^verbatim>\<open>start_of_frame\<close> are the two states; in
  a frame the state holds the bytes stored in \<^verbatim>\<open>frame\<close> so far (\<^verbatim>\<open>index\<close> is their
  number), \<^verbatim>\<open>escaped\<close> and \<^verbatim>\<open>frameSize\<close>. Each step is one \<^verbatim>\<open>recv\<close> of one
  byte. The result is the return code of a failed \<^verbatim>\<open>recv\<close>, or the frame (the two
  length bytes, the content and the checksum byte), with what is left of the input.
\<close>

datatype parse_state = BeforeFrame | InFrame "byte list" bool nat

fun read_frame :: "parse_state \<Rightarrow> rx_event list \<Rightarrow> (int + byte list) \<times> rx_event list" where
  "read_frame st [] = (Inl (- 1), [])"
| "read_frame st (RxFail # es) = (Inl (- 1), es)"
| "read_frame BeforeFrame (Rx b # es) =
     (if b \<noteq> 0x7e then read_frame BeforeFrame es else read_frame (InFrame [] False 2) es)"
| "read_frame (InFrame frame escaped frameSize) (Rx b # es) =
     (if b = 0x7e then read_frame (InFrame [] False 2) es
      else if \<not> escaped \<and> b = 0x7d then read_frame (InFrame frame True frameSize) es
      else
        let byte = (if escaped then b XOR 0x20 else b) in
        if length frame \<ge> 256 then read_frame BeforeFrame es
        else
          let frame' = frame @ [byte];
              index = length frame'
          in if index = 2 then
               let frameSize' = (push_bit 8 (unat (frame' ! 0)) OR unat (frame' ! 1)) + 2 + 1
               in if frameSize' \<ge> 256 then read_frame BeforeFrame es
                  else if index < frameSize' then read_frame (InFrame frame' False frameSize') es
                  else (Inr frame', es)
             else if index < frameSize then read_frame (InFrame frame' False frameSize) es
             else (Inr frame', es))"

text \<open>The checksum test at the end of a frame: \<^verbatim>\<open>checksum\<close> starts at 1 and must end at 0.\<close>

definition frame_checksum :: "byte list \<Rightarrow> byte" where
  "frame_checksum frame = fold (\<lambda>v c. c + v) (drop 2 frame) 1"

subsection \<open>Received frames\<close>

definition xbeedev_record16Bit :: "XBeeBootSession \<Rightarrow> byte list \<Rightarrow> XBeeBootSession" where
  "xbeedev_record16Bit xbs rx16Bit =
     (let tx16Bit = take 2 (drop 8 (xbee_address xbs))
      in if rx16Bit \<noteq> tx16Bit
         then xbs\<lparr>xbee_address := take 8 (xbee_address xbs) @ rx16Bit\<rparr>
         else xbs)"

text \<open>
  The caller's receive buffer, \<^verbatim>\<open>buf\<close> and \<^verbatim>\<open>buflen\<close> of \<^verbatim>\<open>xbeedev_poll\<close>:
  \<open>None\<close> when both are \<^verbatim>\<open>NULL\<close>, otherwise the bytes stored through \<^verbatim>\<open>*buf\<close>
  so far and the room left, \<^verbatim>\<open>*buflen\<close>.
\<close>

type_synonym recv_buffer = "(byte list \<times> nat) option"

text \<open>
  The loop over the text of a received FRAME_REPLY: each byte goes to the caller's
  buffer while it has room, to the ring otherwise. The first component says that the
  ring was overrun, where the source returns \<open>-1\<close>.
\<close>

fun deliver ::
  "XBeeBootSession \<Rightarrow> recv_buffer \<Rightarrow> byte list \<Rightarrow> bool \<times> XBeeBootSession \<times> recv_buffer" where
  "deliver xbs client [] = (False, xbs, client)"
| "deliver xbs client (d # ds) =
     (case client of
        Some (buf, Suc buflen) \<Rightarrow> deliver xbs (Some (buf @ [d], buflen)) ds
      | _ \<Rightarrow>
          let xbs1 = xbs\<lparr>inBuffer := (inBuffer xbs)(inInIndex xbs := d),
                         inInIndex := inInIndex xbs + 1\<rparr>
          in if inInIndex xbs1 = inOutIndex xbs1
             then (True, xbs1\<lparr>transportUnusable := True\<rparr>, client)
             else deliver xbs1 client ds)"

text \<open>
  The branch for frame types \<open>0x10\<close> and \<open>0x90\<close> once \<^verbatim>\<open>dataStart\<close> and
  \<^verbatim>\<open>dataLength\<close> are known; \<open>pdata\<close> is the \<^verbatim>\<open>dataLength\<close> bytes at
  \<^verbatim>\<open>dataStart\<close>. The result is \<open>Some rc\<close> where the source returns \<open>rc\<close>, and
  \<open>None\<close> where it goes on to the next frame.
\<close>

definition poll_packet ::
  "XBeeBootSession \<Rightarrow> recv_buffer \<Rightarrow> int \<Rightarrow> byte list \<Rightarrow> timeval \<Rightarrow>
   int option \<times> XBeeBootSession \<times> recv_buffer" where
  "poll_packet xbs client waitForAck pdata receiveTime =
     (let dataLength = length pdata in
      if dataLength \<ge> 2 then
        let protocolType = pdata ! 0;
            sequence = pdata ! 1
        in if uint protocolType = XBEEBOOT_PACKET_TYPE_ACK then
             let xbs1 = xbeedev_stats_receive xbs XBEE_STATS_TRANSMIT sequence receiveTime
             in if waitForAck \<ge> 0 \<and> waitForAck = uint sequence
                then (Some 0, xbs1, client) else (None, xbs1, client)
           else if uint protocolType = XBEEBOOT_PACKET_TYPE_REQUEST \<and>
                   dataLength \<ge> 4 \<and> pdata ! 2 = 24 then
             let xbs1 = xbeedev_stats_receive xbs XBEE_STATS_RECEIVE sequence receiveTime;
                 nextSequence = next_sequence (inSequence xbs1)
             in if sequence = nextSequence then
                  let xbs2 = xbs1\<lparr>inSequence := nextSequence\<rparr>;
                      textLength = dataLength - 3
                  in (case deliver xbs2 client (take textLength (drop 3 pdata)) of
                        (True, xbs3, client') \<Rightarrow> (Some (- 1), xbs3, client')
                      | (False, xbs3, client') \<Rightarrow>
                          let (ackRc, xbs4) =
                                sendPacket xbs3 (word_of_int XBEEBOOT_PACKET_TYPE_ACK)
                                  sequence (- 1) []
                          in (case client' of
                                Some (buf, 0) \<Rightarrow> (Some 0, xbs4, client')
                              | _ \<Rightarrow>
                                  (None,
                                   xbeedev_stats_send xbs4 XBEE_STATS_RECEIVE
                                     (next_sequence nextSequence) receiveTime,
                                   client')))
                else (None, xbs1, client)
           else (None, xbs, client)
      else (None, xbs, client))"

text \<open>The branch for a Route Record Indicator, frame type \<open>0xa1\<close>.\<close>

definition poll_route_record :: "XBeeBootSession \<Rightarrow> byte list \<Rightarrow> XBeeBootSession" where
  "poll_route_record xbs frame =
     (let frameSize = length frame in
      if take 8 (drop 3 frame) \<noteq> take 8 (xbee_address xbs) then xbs
      else
        let xbs1 = xbeedev_record16Bit xbs (take 2 (drop 11 frame));
            header = 13;
            hops = unat (frame ! (header + 1))
        in if frameSize < header + 2 + hops * 2 + 1 then xbs1
           else
             let tableOffset = header + 2 in
             if hops \<le> XBEE_MAX_INTERMEDIATE_HOPS then
               if sourceRouteHops xbs1 \<noteq> int hops \<or>
                  take (hops * 2) (drop tableOffset frame) \<noteq> take (hops * 2) (sourceRoute xbs1)
               then xbs1\<lparr>sourceRoute :=
                            take (hops * 2) (drop tableOffset frame) @
                            drop (hops * 2) (sourceRoute xbs1),
                          sourceRouteHops := int hops,
                          sourceRouteChanged := True\<rparr>
               else xbs1
             else xbs1)"

text \<open>
  The second half of the loop body of \<^verbatim>\<open>xbeedev_poll\<close>: the dispatch on the type of a
  frame whose checksum was right. \<^verbatim>\<open>frameSize\<close> is the number of bytes of the frame,
  so that every index the source reads after one of its size tests is inside it.
\<close>

definition poll_frame ::
  "XBeeBootSession \<Rightarrow> recv_buffer \<Rightarrow> int \<Rightarrow> int \<Rightarrow> byte list \<Rightarrow> timeval \<Rightarrow>
   int option \<times> XBeeBootSession \<times> recv_buffer" where
  "poll_frame xbs client waitForAck waitForSequence frame receiveTime =
     (let frameSize = length frame;
          frameType = frame ! 2
      in if frameType = 0x97 \<and> frameSize > 16 then
           let txSeq = frame ! 3;
               resultCode = frame ! 16;
               xbs1 = xbeedev_stats_receive xbs XBEE_STATS_FRAME_REMOTE txSeq receiveTime
           in if waitForSequence \<ge> 0 \<and> waitForSequence = uint (frame ! 3)
              then (Some (- 512 + uint resultCode), xbs1, client)
              else (None, xbs1, client)
         else if frameType = 0x88 \<and> frameSize > 6 then
           let txSeq = frame ! 3;
               xbs1 = xbeedev_stats_receive xbs XBEE_STATS_FRAME_LOCAL txSeq receiveTime
           in if waitForSequence \<ge> 0 \<and> waitForSequence = uint txSeq
              then (Some 0, xbs1, client)
              else (None, xbs1, client)
         else if frameType = 0x8b \<and> frameSize > 7 then
           (None, xbeedev_stats_receive xbs XBEE_STATS_FRAME_REMOTE (frame ! 3) receiveTime,
            client)
         else if frameType = 0xa1 \<and> frameSize \<ge> 2 + 1 + 8 + 2 + 2 + 1 then
           (None, poll_route_record xbs frame, client)
         else if frameType = 0x10 \<or> frameType = 0x90 then
           if frameType = 0x10 then
             let header = 2 + 1 + 1 + 8 + 2 + 1 + 1 in
             if frameSize \<le> header + 1 then (None, xbs, client)
             else poll_packet xbs client waitForAck
                    (take (frameSize - header - 1) (drop header frame)) receiveTime
           else
             let header = 2 + 1 + 8 + 2 + 1 in
             if frameSize \<le> header + 1 then (None, xbs, client)
             else if take 8 (drop 3 frame) \<noteq> take 8 (xbee_address xbs) then (None, xbs, client)
             else poll_packet (xbeedev_record16Bit xbs (take 2 (drop 11 frame))) client waitForAck
                    (take (frameSize - header - 1) (drop header frame)) receiveTime
         else (None, xbs, client))"

subsection \<open>The receive loop\<close>

text \<open>
  \<^verbatim>\<open>xbeedev_poll\<close> loops until a frame makes it return or a \<^verbatim>\<open>recv\<close> fails. Every
  turn of the loop reads at least one byte of the input, and nothing that is done with a
  frame reads more: that is why the loop ends on every input script.
\<close>

lemma read_frame_length: "length (snd (read_frame st es)) \<le> length es"
proof (induction es arbitrary: st)
  case Nil
  show ?case by simp
next
  case (Cons e es)
  have *: "\<And>st'. length (snd (read_frame st' es)) \<le> Suc (length es)"
    using Cons [THEN le_SucI] .
  show ?case
  proof (cases e)
    case RxFail
    then show ?thesis by simp
  next
    case (Rx b)
    show ?thesis
    proof (cases st)
      case BeforeFrame
      with Rx * show ?thesis by simp
    next
      case (InFrame f esc fs)
      with Rx * show ?thesis by (simp add: Let_def)
    qed
  qed
qed

lemma read_frame_shorter:
  assumes "read_frame st es = (Inr fr, rest)"
  shows "length rest < length es"
proof (cases es)
  case Nil
  with assms show ?thesis by simp
next
  case (Cons e es')
  have *: "\<And>st'. read_frame st' es' = (Inr fr, rest) \<Longrightarrow> length rest < length es"
    using read_frame_length [of _ es'] Cons
    by (metis le_imp_less_Suc length_Cons snd_conv)
  show ?thesis
  proof (cases e)
    case RxFail
    with Cons assms show ?thesis by simp
  next
    case (Rx b)
    show ?thesis
    proof (cases st)
      case BeforeFrame
      with Rx Cons assms * show ?thesis
        by (auto split: if_splits)
    next
      case (InFrame f esc fs)
      with Rx Cons assms * show ?thesis
        by (auto simp: Let_def split: if_splits)
    qed
  qed
qed

lemma sendAPIRequest_tail_rx:
  "rx (serialDescriptor (snd (sendAPIRequest_tail xbs b t p1 p2 pt sq ap d))) = rx (serialDescriptor xbs)"
  by (simp add: sendAPIRequest_tail_def Let_def serial_send_def xbeedev_stats_send_def split: prod.splits)

lemma sendAPIRequest_rx:
  "rx (serialDescriptor (snd (sendAPIRequest xbs apiType txSeq apiOption p1 p2 pt sq ap g d))) = rx (serialDescriptor xbs)"
proof (induction xbs apiType txSeq apiOption p1 p2 pt sq ap g d rule: sendAPIRequest.induct)
  case (1 xbs apiType txSeq apiOption p1 p2 pt sq ap g d)
  show ?case
    apply (subst sendAPIRequest.simps)
    using 1
    apply (auto simp: Let_def gettimeofday_def xbeedev_stats_send_def sendAPIRequest_tail_rx split: prod.splits)
    done
qed

lemma sendPacket_rx:
  "rx (serialDescriptor (snd (sendPacket xbs pt sq ap d))) = rx (serialDescriptor xbs)"
  by (simp add: sendPacket_def Let_def sendAPIRequest_rx split: prod.splits)

lemma deliver_rx:
  "rx (serialDescriptor (fst (snd (deliver xbs client ds)))) = rx (serialDescriptor xbs)"
  by (induction xbs client ds rule: deliver.induct)
     (auto simp: Let_def split: option.splits nat.splits prod.splits)

lemma record16Bit_rx:
  "rx (serialDescriptor (xbeedev_record16Bit xbs a)) = rx (serialDescriptor xbs)"
  by (simp add: xbeedev_record16Bit_def Let_def)

lemma stats_receive_rx:
  "rx (serialDescriptor (xbeedev_stats_receive xbs g sq t)) = rx (serialDescriptor xbs)"
  by (simp add: xbeedev_stats_receive_def Let_def)

lemma stats_send_rx:
  "rx (serialDescriptor (xbeedev_stats_send xbs g sq t)) = rx (serialDescriptor xbs)"
  by (simp add: xbeedev_stats_send_def)

lemma poll_packet_rx:
  "rx (serialDescriptor (fst (snd (poll_packet xbs client wa pdata t)))) = rx (serialDescriptor xbs)"
proof -
  have d: "\<And>x c ds b x' c'. deliver x c ds = (b, x', c') \<Longrightarrow>
             rx (serialDescriptor x') = rx (serialDescriptor x)"
    using deliver_rx by (metis fst_conv snd_conv)
  have p: "\<And>x a b c d rc x'. sendPacket x a b c d = (rc, x') \<Longrightarrow>
             rx (serialDescriptor x') = rx (serialDescriptor x)"
    using sendPacket_rx by (metis snd_conv)
  show ?thesis
    by (auto simp: poll_packet_def Let_def stats_receive_rx stats_send_rx
          split: prod.splits bool.splits option.splits nat.splits dest!: d p)
qed

lemma poll_route_record_rx:
  "rx (serialDescriptor (poll_route_record xbs frame)) = rx (serialDescriptor xbs)"
  by (simp add: poll_route_record_def Let_def record16Bit_rx)

lemma poll_frame_rx:
  "rx (serialDescriptor (fst (snd (poll_frame xbs client wa ws frame t)))) = rx (serialDescriptor xbs)"
  by (simp add: poll_frame_def Let_def stats_receive_rx poll_route_record_rx poll_packet_rx
        record16Bit_rx)

lemma poll_frame_rx':
  "(r, xbs', client') = poll_frame xbs client wa ws frame t \<Longrightarrow>
   rx (serialDescriptor xbs') = rx (serialDescriptor xbs)"
  using poll_frame_rx [of xbs client wa ws frame t] by (metis fst_conv snd_conv)

function xbeedev_poll ::
  "XBeeBootSession \<Rightarrow> recv_buffer \<Rightarrow> int \<Rightarrow> int \<Rightarrow> int \<times> XBeeBootSession \<times> recv_buffer" where
  "xbeedev_poll xbs client waitForAck waitForSequence =
     (case read_frame BeforeFrame (rx (serialDescriptor xbs)) of
        (Inl rc, rest) \<Rightarrow>
          (rc, xbs\<lparr>serialDescriptor := (serialDescriptor xbs)\<lparr>rx := rest\<rparr>\<rparr>, client)
      | (Inr frame, rest) \<Rightarrow>
          let xbs1 = xbs\<lparr>serialDescriptor := (serialDescriptor xbs)\<lparr>rx := rest\<rparr>\<rparr> in
          if frame_checksum frame \<noteq> 0
          then xbeedev_poll xbs1 client waitForAck waitForSequence
          else
            let (receiveTime, xbs2) = gettimeofday xbs1 in
            (case poll_frame xbs2 client waitForAck waitForSequence frame receiveTime of
               (Some rc, xbs3, client') \<Rightarrow> (rc, xbs3, client')
             | (None, xbs3, client') \<Rightarrow> xbeedev_poll xbs3 client' waitForAck waitForSequence))"
  by pat_completeness auto
termination
proof (relation "measure (\<lambda>(xbs, client, wa, ws). length (rx (serialDescriptor xbs)))", goal_cases)
  case 1
  show ?case by simp
next
  case 2
  then show ?case
    by (auto dest: read_frame_shorter [OF sym])
next
  case 3
  then show ?case
    by (auto simp: gettimeofday_def dest!: poll_frame_rx' read_frame_shorter [OF sym])
qed

declare xbeedev_poll.simps [simp del]

subsection \<open>AT commands\<close>

definition XBEE_AT_RETURN_CODE :: "int \<Rightarrow> int" where
  "XBEE_AT_RETURN_CODE x = (if x \<ge> - 512 \<and> x \<le> - 256 then x + 512 else - 1)"



fun sendAT_poll :: "nat \<Rightarrow> XBeeBootSession \<Rightarrow> byte \<Rightarrow> int \<times> XBeeBootSession" where
  "sendAT_poll 0 xbs sequence = (- 1, xbs)"
| "sendAT_poll (Suc n) xbs sequence =
     (case xbeedev_poll xbs None (- 1) (uint sequence) of
        (rc, xbs1, client) \<Rightarrow>
          if XBEE_AT_RETURN_CODE rc = 0 then (0, xbs1)
          else if rc \<noteq> - 1 then (rc, xbs1)
          else sendAT_poll n xbs1 sequence)"

definition sendAT :: "XBeeBootSession \<Rightarrow> byte \<Rightarrow> byte \<Rightarrow> int \<Rightarrow> int \<times> XBeeBootSession" where
  "sendAT xbs at1 at2 val =
     (if directMode xbs then (0, xbs)
      else
        let xbs1 = xbs\<lparr>txSequence := next_sequence (txSequence xbs)\<rparr>;
            sequence = txSequence xbs1;
            buf = [at1, at2] @ (if val \<ge> 0 then [word_of_int val] else []);
            (sendRc, xbs2) =
              sendAPIRequest xbs1 0x17 (uint sequence) (- 1) (- 1) (- 1) (- 1) 0x02 (- 1)
                XBEE_STATS_FRAME_REMOTE buf
        in sendAT_poll 30 xbs2 sequence)"

definition xbeeATError :: "int \<Rightarrow> int" where
  "xbeeATError rc = (if XBEE_AT_RETURN_CODE rc < 0 then 0 else 1)"

subsection \<open>Send, receive and drain\<close>

text \<open>
  The retry loop of \<^verbatim>\<open>xbeedev_send\<close> for one chunk. \<open>Inl rc\<close> is a
  \<^verbatim>\<open>return rc\<close> from inside the loop; \<open>Inr (pollRc, acked)\<close> is the end of the loop,
  by \<^verbatim>\<open>break\<close> after an ACK (\<open>acked\<close>) or because the retries are used up.
\<close>

fun send_attempts ::
  "nat \<Rightarrow> XBeeBootSession \<Rightarrow> byte \<Rightarrow> byte list \<Rightarrow> int \<Rightarrow> (int + int \<times> bool) \<times> XBeeBootSession" where
  "send_attempts 0 xbs sequence chunk pollRc = (Inr (pollRc, False), xbs)"
| "send_attempts (Suc n) xbs sequence chunk pollRc =
     (case sendPacket xbs (word_of_int XBEEBOOT_PACKET_TYPE_REQUEST) sequence 23 chunk of
        (sendRc, xbs1) \<Rightarrow>
          if sendRc < 0 then (Inl sendRc, xbs1\<lparr>transportUnusable := True\<rparr>)
          else
            (case xbeedev_poll xbs1 None (uint sequence) (- 1) of
               (pollRc', xbs2, client) \<Rightarrow>
                 if pollRc' = 0 then (Inr (pollRc', True), xbs2)
                 else if inSequence xbs2 \<noteq> 0 then
                   (case sendPacket xbs2 (word_of_int XBEEBOOT_PACKET_TYPE_ACK)
                           (inSequence xbs2) (- 1) [] of
                      (ackRc, xbs3) \<Rightarrow>
                        if ackRc < 0 then (Inl ackRc, xbs3\<lparr>transportUnusable := True\<rparr>)
                        else send_attempts n xbs3 sequence chunk pollRc')
                 else send_attempts n xbs2 sequence chunk pollRc'))"





abbreviation set_rx :: "XBeeBootSession \<Rightarrow> rx_event list \<Rightarrow> XBeeBootSession" where
  "set_rx xbs rest \<equiv> xbs\<lparr>serialDescriptor := (serialDescriptor xbs)\<lparr>rx := rest\<rparr>\<rparr>"

lemma xbeedev_poll_fail:
  "read_frame BeforeFrame (rx (serialDescriptor xbs)) = (Inl rc, rest) \<Longrightarrow>
   xbeedev_poll xbs client wa ws = (rc, set_rx xbs rest, client)"
  by (subst xbeedev_poll.simps) simp

lemma xbeedev_poll_bad_checksum:
  "read_frame BeforeFrame (rx (serialDescriptor xbs)) = (Inr frame, rest) \<Longrightarrow>
   frame_checksum frame \<noteq> 0 \<Longrightarrow>
   xbeedev_poll xbs client wa ws = xbeedev_poll (set_rx xbs rest) client wa ws"
  by (subst xbeedev_poll.simps) simp

lemma xbeedev_poll_return:
  "read_frame BeforeFrame (rx (serialDescriptor xbs)) = (Inr frame, rest) \<Longrightarrow>
   frame_checksum frame = 0 \<Longrightarrow>
   poll_frame (set_rx xbs rest\<lparr>ticks := ticks xbs + 1\<rparr>) client wa ws frame (clock xbs (ticks xbs))
     = (Some rc, xbs3, client') \<Longrightarrow>
   xbeedev_poll xbs client wa ws = (rc, xbs3, client')"
  by (subst xbeedev_poll.simps) (simp add: gettimeofday_def)

lemma xbeedev_poll_again:
  "read_frame BeforeFrame (rx (serialDescriptor xbs)) = (Inr frame, rest) \<Longrightarrow>
   frame_checksum frame = 0 \<Longrightarrow>
   poll_frame (set_rx xbs rest\<lparr>ticks := ticks xbs + 1\<rparr>) client wa ws frame (clock xbs (ticks xbs))
     = (None, xbs3, client') \<Longrightarrow>
   xbeedev_poll xbs client wa ws = xbeedev_poll xbs3 client' wa ws"
  by (subst xbeedev_poll.simps) (simp add: gettimeofday_def)

lemma xbeedev_poll_cases [case_names Fail BadChecksum Return Again]:
  assumes "\<And>xbs client rc rest.
      read_frame BeforeFrame (rx (serialDescriptor xbs)) = (Inl rc, rest) \<Longrightarrow> P xbs client"
    and "\<And>xbs client frame rest.
      read_frame BeforeFrame (rx (serialDescriptor xbs)) = (Inr frame, rest) \<Longrightarrow>
      frame_checksum frame \<noteq> 0 \<Longrightarrow> P (set_rx xbs rest) client \<Longrightarrow> P xbs client"
    and "\<And>xbs client frame rest rc xbs3 client'.
      read_frame BeforeFrame (rx (serialDescriptor xbs)) = (Inr frame, rest) \<Longrightarrow>
      frame_checksum frame = 0 \<Longrightarrow>
      poll_frame (set_rx xbs rest\<lparr>ticks := ticks xbs + 1\<rparr>) client wa ws frame
        (clock xbs (ticks xbs)) = (Some rc, xbs3, client') \<Longrightarrow> P xbs client"
    and "\<And>xbs client frame rest xbs3 client'.
      read_frame BeforeFrame (rx (serialDescriptor xbs)) = (Inr frame, rest) \<Longrightarrow>
      frame_checksum frame = 0 \<Longrightarrow>
      poll_frame (set_rx xbs rest\<lparr>ticks := ticks xbs + 1\<rparr>) client wa ws frame
        (clock xbs (ticks xbs)) = (None, xbs3, client') \<Longrightarrow>
      P xbs3 client' \<Longrightarrow> P xbs client"
  shows "P xbs client"
proof (induction "length (rx (serialDescriptor xbs))" arbitrary: xbs client rule: less_induct)
  case (less xbs client)
  obtain r rest where rf: "read_frame BeforeFrame (rx (serialDescriptor xbs)) = (r, rest)"
    by (cases "read_frame BeforeFrame (rx (serialDescriptor xbs))")
  show ?case
  proof (cases r)
    case (Inl rc)
    with rf assms(1) show ?thesis by blast
  next
    case (Inr frame)
    with rf have rf': "read_frame BeforeFrame (rx (serialDescriptor xbs)) = (Inr frame, rest)"
      by simp
    have shorter: "length rest < length (rx (serialDescriptor xbs))"
      using read_frame_shorter [OF rf'] .
    show ?thesis
    proof (cases "frame_checksum frame = 0")
      case False
      have "P (set_rx xbs rest) client"
        using shorter by (intro less) simp
      with rf' False assms(2) show ?thesis by blast
    next
      case True
      obtain r3 xbs3 c3 where pf:
        "poll_frame (set_rx xbs rest\<lparr>ticks := ticks xbs + 1\<rparr>) client wa ws frame
           (clock xbs (ticks xbs)) = (r3, xbs3, c3)"
        using prod_cases3 by blast
      show ?thesis
      proof (cases r3)
        case (Some rc)
        with rf' True pf assms(3) show ?thesis by blast
      next
        case None
        have "rx (serialDescriptor xbs3) = rest"
          using poll_frame_rx' [OF pf [symmetric]] by simp
        then have "P xbs3 c3"
          using shorter by (intro less) simp
        with rf' True pf None assms(4) show ?thesis by blast
      qed
    qed
  qed
qed














text \<open>The retry loop of \<^verbatim>\<open>xbeedev_recv\<close>.\<close>

fun recv_attempts ::
  "nat \<Rightarrow> XBeeBootSession \<Rightarrow> recv_buffer \<Rightarrow> int \<times> XBeeBootSession \<times> recv_buffer" where
  "recv_attempts 0 xbs client = (- 1, xbs, client)"
| "recv_attempts (Suc n) xbs client =
     (case xbeedev_poll xbs client (- 1) (- 1) of
        (rc, xbs1, client1) \<Rightarrow>
          if rc = 0 then (rc, xbs1, client1)
          else if transportUnusable xbs1 then (- 1, xbs1, client1)
          else if inSequence xbs1 \<noteq> 0 then
            (case sendPacket xbs1 (word_of_int XBEEBOOT_PACKET_TYPE_ACK)
                    (inSequence xbs1) (- 1) [] of
               (ackRc, xbs2) \<Rightarrow> recv_attempts n xbs2 client1)
          else recv_attempts n xbs1 client1)"







subsection \<open>The reset line, and closing\<close>

text \<open>
  \<^verbatim>\<open>'D'\<close> is \<open>0x44\<close> and \<^verbatim>\<open>'0'\<close> is \<open>0x30\<close>; the second command character is
  \<^verbatim>\<open>'0' + xbs->xbeeResetPin\<close>, converted to \<^verbatim>\<open>unsigned char\<close>.
\<close>

definition xbeedev_set_dtr_rts :: "XBeeBootSession \<Rightarrow> int \<Rightarrow> int \<times> XBeeBootSession" where
  "xbeedev_set_dtr_rts xbs is_on =
     (if directMode xbs then
        let (rc, port) = serial_set_dtr_rts (serialDescriptor xbs) is_on
        in (rc, xbs\<lparr>serialDescriptor := port\<rparr>)
      else
        (case sendAT xbs 0x44 (word_of_int (0x30 + xbeeResetPin xbs))
                (if is_on \<noteq> 0 then 5 else 4) of
           (rc, xbs1) \<Rightarrow>
             if rc < 0 then (if xbeeATError rc \<noteq> 0 then (- 1, xbs1) else (rc, xbs1))
             else (0, xbs1)))"

text \<open>
  \<^verbatim>\<open>xbee_close\<close>, up to the four summaries: \<^verbatim>\<open>'F'\<close> is \<open>0x46\<close> and \<^verbatim>\<open>'R'\<close> is
  \<open>0x52\<close>. The summaries are computed in the order of the source, and the first
  division by zero ends the run. The session is freed afterwards.
\<close>

definition xbee_close :: "XBeeBootSession \<Rightarrow> (fault + timeval list) \<times> XBeeBootSession" where
  "xbee_close xbs =
     (let (ctlRc, port) = serial_set_dtr_rts (serialDescriptor xbs) 0;
          xbs1 = xbs\<lparr>serialDescriptor := port\<rparr>;
          xbs2 = (if \<not> directMode xbs1 then snd (sendAT xbs1 0x46 0x52 (- 1)) else xbs1)
      in (case xbeeStatsSummarise (groupSummary xbs2 XBEE_STATS_FRAME_LOCAL) of
            Inl f \<Rightarrow> (Inl f, xbs2)
          | Inr a0 \<Rightarrow>
          (case xbeeStatsSummarise (groupSummary xbs2 XBEE_STATS_FRAME_REMOTE) of
            Inl f \<Rightarrow> (Inl f, xbs2)
          | Inr a1 \<Rightarrow>
          (case xbeeStatsSummarise (groupSummary xbs2 XBEE_STATS_TRANSMIT) of
            Inl f \<Rightarrow> (Inl f, xbs2)
          | Inr a2 \<Rightarrow>
          (case xbeeStatsSummarise (groupSummary xbs2 XBEE_STATS_RECEIVE) of
            Inl f \<Rightarrow> (Inl f, xbs2)
          | Inr a3 \<Rightarrow> (Inr [a0, a1, a2, a3], xbs2))))))"

subsection \<open>Extended parameters\<close>

text \<open>
  \<^verbatim>\<open>xbee_parseextparms\<close> walks the list of extended parameters; its state is the return
  code \<^verbatim>\<open>rc\<close> and \<^verbatim>\<open>pgm->flag\<close>. The conversion \<^verbatim>\<open>%i\<close> of \<^verbatim>\<open>sscanf\<close> belongs
  to the C library and is the parameter \<open>scan_i\<close>: applied to the text after
  \<^verbatim>\<open>xbeeresetpin=\<close>, it gives the integer read, or \<open>None\<close> when \<^verbatim>\<open>sscanf\<close> does
  not return 1.
\<close>

fun xbee_parseextparms ::
  "(string \<Rightarrow> int option) \<Rightarrow> int \<times> int \<Rightarrow> string list \<Rightarrow> int \<times> int" where
  "xbee_parseextparms scan_i (rc, flag) [] = (rc, flag)"
| "xbee_parseextparms scan_i (rc, flag) (extended_param # ln) =
     (if take 13 extended_param = ''xbeeresetpin='' then
        (case scan_i (drop 13 extended_param) of
           None \<Rightarrow> xbee_parseextparms scan_i (- 1, flag) ln
         | Some resetpin \<Rightarrow>
             if resetpin \<le> 0 \<or> resetpin > 7
             then xbee_parseextparms scan_i (- 1, flag) ln
             else xbee_parseextparms scan_i (rc, resetpin) ln)
      else xbee_parseextparms scan_i (- 1, flag) ln)"

subsection \<open>Notions for the statements\<close>

text \<open>
  The bytes that one \<^verbatim>\<open>fpput\<close> writes; an optional field of \<^verbatim>\<open>sendAPIRequest\<close>
  as the list of the bytes it contributes; the unescaped content of the frame that
  \<^verbatim>\<open>sendAPIRequest\<close> builds from its arguments; and the clock and statistics side of
  one call.
\<close>

definition escape :: "byte \<Rightarrow> byte list" where
  "escape v = fp (fpput v builder0)"

definition optional :: "int \<Rightarrow> byte list" where
  "optional x = (if x \<ge> 0 then [word_of_int x] else [])"

definition api_content ::
  "XBeeBootSession \<Rightarrow> byte \<Rightarrow> int \<Rightarrow> int \<Rightarrow> int \<Rightarrow> int \<Rightarrow> int \<Rightarrow> int \<Rightarrow> int \<Rightarrow> byte list \<Rightarrow> byte list" where
  "api_content xbs apiType txSeq apiOption prePayload1 prePayload2 packetType sequence appType data =
     [apiType] @ optional apiOption @ optional txSeq @
     (if apiType \<noteq> 0x08 then take 10 (xbee_address xbs) else []) @
     optional prePayload1 @ optional prePayload2 @ optional packetType @ optional sequence @
     optional appType @ data"

definition api_stats :: "XBeeBootSession \<Rightarrow> int \<Rightarrow> nat \<Rightarrow> int \<Rightarrow> int \<Rightarrow> XBeeBootSession" where
  "api_stats xbs txSeq frameGroup packetType sequence =
     (let time = clock xbs (ticks xbs);
          xbs1 = xbs\<lparr>ticks := ticks xbs + 1\<rparr>;
          xbs2 = (if txSeq \<ge> 0
                  then xbeedev_stats_send xbs1 frameGroup (word_of_int txSeq) time else xbs1)
      in if sequence \<ge> 0 \<and> packetType = XBEEBOOT_PACKET_TYPE_REQUEST
         then xbeedev_stats_send xbs2 XBEE_STATS_TRANSMIT (word_of_int sequence) time
         else xbs2)"

text \<open>
  The frames as they go to the port. \<open>route_frame\<close> is the Create Source Route frame
  that \<^verbatim>\<open>sendAPIRequest\<close> builds from the cached route; \<open>packet_frame\<close> is the
  frame of one \<^verbatim>\<open>sendPacket\<close>, a Receive Packet frame \<open>0x90\<close> in direct mode and a
  Transmit Request frame \<open>0x10\<close> with broadcast radius 0 and options 0 otherwise;
  \<open>packet_frames\<close> is what one \<^verbatim>\<open>sendPacket\<close> hands to the port: the route frame
  first when the route has changed, then the packet, unless the port refused the route
  frame. \<open>new_frames xbs xbs'\<close> is what has been handed to the port between two states
  of a session.
\<close>

definition route_frame :: "XBeeBootSession \<Rightarrow> byte list" where
  "route_frame xbs =
     encode_frame (api_content xbs 0x21 0 (- 1) 0 (sourceRouteHops xbs) (- 1) (- 1) (- 1)
                     (take (nat (sourceRouteHops xbs * 2)) (sourceRoute xbs)))"

definition packet_frame ::
  "XBeeBootSession \<Rightarrow> byte \<Rightarrow> byte \<Rightarrow> byte \<Rightarrow> int \<Rightarrow> byte list \<Rightarrow> byte list" where
  "packet_frame xbs t packetType sequence appType data =
     encode_frame
       (if directMode xbs
        then [0x90, t] @ take 10 (xbee_address xbs) @ [packetType, sequence] @
             optional appType @ data
        else [0x10, t] @ take 10 (xbee_address xbs) @ [0, 0, packetType, sequence] @
             optional appType @ data)"

definition packet_frames ::
  "XBeeBootSession \<Rightarrow> byte \<Rightarrow> byte \<Rightarrow> int \<Rightarrow> byte list \<Rightarrow> byte list list" where
  "packet_frames xbs packetType sequence appType data =
     (if sourceRouteChanged xbs then [route_frame xbs] else []) @
     (if sourceRouteChanged xbs \<and>
         tx_result (serialDescriptor xbs) (length (tx (serialDescriptor xbs))) \<noteq> 0
      then []
      else [packet_frame xbs (next_sequence (txSequence xbs)) packetType sequence appType data])"

definition new_frames :: "XBeeBootSession \<Rightarrow> XBeeBootSession \<Rightarrow> byte list list" where
  "new_frames xbs xbs' = drop (length (tx (serialDescriptor xbs))) (tx (serialDescriptor xbs'))"


definition request_frame :: "byte list \<Rightarrow> byte \<Rightarrow> byte list \<Rightarrow> bool" where
  "request_frame frame s payload \<longleftrightarrow>
     (\<exists>l0 l1 hdr cks.
        frame = [l0, l1] @ hdr @ [1, s, 24] @ payload @ [cks] \<and>
        (hd hdr = 0x90 \<and> length hdr = 12 \<or> hd hdr = 0x10 \<and> length hdr = 14))"

definition same_input :: "XBeeBootSession \<Rightarrow> XBeeBootSession \<Rightarrow> bool" where
  "same_input xbs xbs' \<longleftrightarrow>
     inSequence xbs' = inSequence xbs \<and> inBuffer xbs' = inBuffer xbs \<and>
     inInIndex xbs' = inInIndex xbs \<and> inOutIndex xbs' = inOutIndex xbs \<and>
     tx (serialDescriptor xbs') = tx (serialDescriptor xbs) \<and>
     transportUnusable xbs' = transportUnusable xbs"

text \<open>
  What the operations of the transport preserve. \<open>sequence_advance c c'\<close>: the counter
  value \<open>c'\<close> is \<open>c\<close> after some number of increments, and \<open>counters_advance\<close>
  says so of the three counters of a session. \<open>route_known\<close>: a route that is still
  to be sent has a hop count. \<open>session_step\<close>: the log of the port has only
  grown, the three counters have only been incremented, the latch has not been cleared, and
  the mode and the reset pin are the same.
\<close>

definition sequence_advance :: "byte \<Rightarrow> byte \<Rightarrow> bool" where
  "sequence_advance c c' \<longleftrightarrow> (\<exists>k. c' = (next_sequence ^^ k) c)"


definition route_known :: "XBeeBootSession \<Rightarrow> bool" where
  "route_known xbs \<longleftrightarrow> (sourceRouteChanged xbs \<longrightarrow> 0 \<le> sourceRouteHops xbs)"

definition session_step :: "XBeeBootSession \<Rightarrow> XBeeBootSession \<Rightarrow> bool" where
  "session_step xbs xbs' \<longleftrightarrow>
     (\<exists>frames. tx (serialDescriptor xbs') = tx (serialDescriptor xbs) @ frames) \<and>
     tx_result (serialDescriptor xbs') = tx_result (serialDescriptor xbs) \<and>
     sequence_advance (txSequence xbs) (txSequence xbs') \<and>
     sequence_advance (outSequence xbs) (outSequence xbs') \<and>
     sequence_advance (inSequence xbs) (inSequence xbs') \<and>
     (transportUnusable xbs \<longrightarrow> transportUnusable xbs') \<and>
     directMode xbs' = directMode xbs \<and>
     xbeeResetPin xbs' = xbeeResetPin xbs \<and>
     (route_known xbs \<longrightarrow> route_known xbs')"

text \<open>
  \<open>data_room content\<close> is the number of bytes that the content of a frame has beyond the
  header of a REQUEST packet with an application type in a frame of type \<open>0x10\<close> (17
  bytes) or \<open>0x90\<close> (15 bytes), 0 for any other frame; \<open>frames_within N\<close> says that
  every frame handed to the port between two states is the encoding of a content with at
  most \<open>N\<close> such bytes.
\<close>

definition data_room :: "byte list \<Rightarrow> nat" where
  "data_room content =
     (if content = [] then 0
      else if hd content = 0x10 then length content - 17
      else if hd content = 0x90 then length content - 15
      else 0)"

definition carries_at_most :: "nat \<Rightarrow> byte list \<Rightarrow> bool" where
  "carries_at_most N f \<longleftrightarrow> (\<exists>content. f = encode_frame content \<and> data_room content \<le> N)"

definition frames_within :: "nat \<Rightarrow> XBeeBootSession \<Rightarrow> XBeeBootSession \<Rightarrow> bool" where
  "frames_within N xbs xbs' \<longleftrightarrow>
     (\<exists>frames. tx (serialDescriptor xbs') = tx (serialDescriptor xbs) @ frames \<and>
               list_all (carries_at_most N) frames)"




subsection \<open>Example sessions\<close>

text \<open>
  An over-the-air session as \<^verbatim>\<open>xbeedev_open\<close> leaves it for the address
  \<^verbatim>\<open>0013A20012345678\<close>, on a port that accepts every send and has nothing to
  deliver; and the same session after a Route Record Indicator with the two hops
  \<^verbatim>\<open>ABCD\<close> and \<^verbatim>\<open>1234\<close>.
\<close>

definition example_port :: serial_port where
  "example_port = \<lparr>rx = [], tx = [], tx_result = (\<lambda>n. 0), dtr_rts = [], ctl_result = (\<lambda>n. 0)\<rparr>"

definition example_session :: XBeeBootSession where
  "example_session =
     \<lparr>serialDescriptor = example_port,
      clock = (\<lambda>n. \<lparr>tv_sec = 0, tv_usec = 0\<rparr>),
      ticks = 0,
      xbee_address = [0x00, 0x13, 0xa2, 0x00, 0x12, 0x34, 0x56, 0x78, 0xff, 0xfe],
      directMode = False,
      outSequence = 0,
      inSequence = 0,
      txSequence = 0,
      transportUnusable = False,
      xbeeResetPin = 3,
      inInIndex = 0,
      inOutIndex = 0,
      inBuffer = (\<lambda>i. 0),
      sourceRouteHops = - 1,
      sourceRouteChanged = False,
      sourceRoute = replicate 80 0,
      sequenceStatistics = (\<lambda>i. \<lparr>tv_sec = 0, tv_usec = 0\<rparr>),
      groupSummary = (\<lambda>g. \<lparr>minimum = \<lparr>tv_sec = 0, tv_usec = 0\<rparr>,
                             maximum = \<lparr>tv_sec = 0, tv_usec = 0\<rparr>,
                             sum_tv = \<lparr>tv_sec = 0, tv_usec = 0\<rparr>,
                             samples = 0\<rparr>)\<rparr>"

definition routed_session :: XBeeBootSession where
  "routed_session =
     example_session\<lparr>sourceRouteHops := 2, sourceRouteChanged := True,
                      sourceRoute := [0xab, 0xcd, 0x12, 0x34] @ replicate 76 0\<rparr>"


section \<open>Properties\<close>

subsection \<open>Sequence numbers\<close>

lemma byte_succ_nonzero: "(x::byte) \<noteq> 255 \<Longrightarrow> x + 1 \<noteq> 0"
proof
  assume "x \<noteq> 255" and "x + 1 = 0"
  then have "x = - 1"
    by (simp add: add_eq_0_iff2)
  then have "x = 255"
    by simp
  with \<open>x \<noteq> 255\<close> show False
    by simp
qed

lemma next_sequence_unfold:
  "next_sequence x = (if x + 1 = 0 then next_sequence (x + 1) else x + 1)"
  by (subst next_sequence.simps) (simp only: Let_def byte_and_ff)

lemma next_sequence_eq: "next_sequence x = (if x = 255 then 1 else x + 1)"
proof (cases "x = 255")
  case True
  have a: "(255::byte) + 1 = 0"
    by simp
  have "next_sequence (255::byte) = next_sequence 0"
    by (subst next_sequence_unfold) (simp only: a simp_thms if_True)
  also have "\<dots> = 1"
    by (subst next_sequence_unfold) simp
  finally show ?thesis
    using True by simp
next
  case False
  then have "x + 1 \<noteq> 0"
    by (rule byte_succ_nonzero)
  with False show ?thesis
    by (subst next_sequence_unfold) simp
qed

lemma next_sequence_nonzero: "next_sequence x \<noteq> 0"
  using byte_succ_nonzero [of x] by (simp add: next_sequence_eq)

subsection \<open>The reset pin parameter\<close>

text \<open>
  Claim C8, as stated, fails: \<^verbatim>\<open>xbeeresetpin=7\<close> is accepted, the return code is 0 and
  the pin is stored. The test of the source is \<^verbatim>\<open>resetpin <= 0 || resetpin > 7\<close>.
\<close>

theorem xbee_parseextparms_pin7_counterexample:
  "xbee_parseextparms (\<lambda>s. if s = ''7'' then Some 7 else None) (0, 3) [''xbeeresetpin=7'']
     = (0, 7)"
  by simp

text \<open>
  Claim C8, amended: when the text after \<^verbatim>\<open>xbeeresetpin=\<close> converts to the integer
  \<open>n\<close>, parsing the parameter succeeds (return code 0, the pin stored in
  \<^verbatim>\<open>pgm->flag\<close>) exactly for \<open>n\<close> in 1..7, and otherwise returns \<open>-1\<close> and leaves
  the flag as it was.
\<close>

theorem xbee_parseextparms_resetpin:
  "scan_i txt = Some n \<Longrightarrow>
   xbee_parseextparms scan_i (0, flag) [''xbeeresetpin='' @ txt] =
     (if 1 \<le> n \<and> n \<le> 7 then (0, n) else (- 1, flag))"
  by auto

theorem xbee_parseextparms_resetpin_witness:
  "(\<lambda>s. if s = ''5'' then Some 5 else None) ''5'' = Some (5::int) \<and>
   xbee_parseextparms (\<lambda>s. if s = ''5'' then Some 5 else None) (0, 3) [''xbeeresetpin=5'']
     = (0, 5)"
  using xbee_parseextparms_resetpin [of "\<lambda>s. if s = ''5'' then Some 5 else None" "''5''" 5 3]
  by simp

subsection \<open>Statistics at the start and at the end of a session\<close>

lemma fold_stats_clear_index_groupSummary:
  "groupSummary (fold (stats_clear_index g) is xbs) = groupSummary xbs"
  by (induction "is" arbitrary: xbs) (simp_all add: stats_clear_index_def)

lemma fold_stats_clear_index_directMode:
  "directMode (fold (stats_clear_index g) is xbs) = directMode xbs"
  by (induction "is" arbitrary: xbs) (simp_all add: stats_clear_index_def)

lemma fold_stats_clear_index_other:
  "\<forall>i \<in> set is. k \<noteq> g * 256 + i \<Longrightarrow>
   sequenceStatistics (fold (stats_clear_index g) is xbs) k = sequenceStatistics xbs k"
  by (induction "is" arbitrary: xbs) (simp_all add: stats_clear_index_def)

lemma stats_clear_group_groupSummary:
  "groupSummary (stats_clear_group g xbs) =
     (groupSummary xbs)(g := xbeeStatsReset (groupSummary xbs g))"
  by (simp add: stats_clear_group_def Let_def fold_stats_clear_index_groupSummary)

lemma stats_clear_group_directMode:
  "directMode (stats_clear_group g xbs) = directMode xbs"
  by (simp add: stats_clear_group_def Let_def fold_stats_clear_index_directMode)

lemma stats_clear_group_other:
  "k < g * 256 \<or> (g + 1) * 256 \<le> k \<Longrightarrow>
   sequenceStatistics (stats_clear_group g xbs) k = sequenceStatistics xbs k"
  by (auto simp: stats_clear_group_def Let_def intro!: fold_stats_clear_index_other)

lemma upt_3: "[0..<3] = [0, 1, 2]"
  by (simp add: upt_rec)

lemma XBeeBootSessionInit_samples:
  "samples (groupSummary (XBeeBootSessionInit xbs) XBEE_STATS_FRAME_LOCAL) = 0"
  by (simp add: XBeeBootSessionInit_def upt_3 XBEE_STATS_FRAME_LOCAL_def
        stats_clear_group_groupSummary xbeeStatsReset_def)

lemma XBeeBootSessionInit_directMode: "directMode (XBeeBootSessionInit xbs)"
  by (simp add: XBeeBootSessionInit_def upt_3 stats_clear_group_directMode)

text \<open>
  Claim C9 (all four statistics groups are reset at initialisation) does not hold of the
  code: the loop of \<^verbatim>\<open>XBeeBootSessionInit\<close> stops at \<^verbatim>\<open>group < 3\<close>, although there
  are \<^verbatim>\<open>XBEE_STATS_GROUPS\<close> = 4 groups, so the summary of the group RECEIVE and its
  256 send times keep what the allocated memory held.
\<close>

theorem XBeeBootSessionInit_skips_RECEIVE:
  "groupSummary (XBeeBootSessionInit xbs) XBEE_STATS_RECEIVE
     = groupSummary xbs XBEE_STATS_RECEIVE \<and>
   sequenceStatistics (XBeeBootSessionInit xbs)
       (XBEE_STATS_RECEIVE * 256 + unat (sequence :: byte))
     = sequenceStatistics xbs (XBEE_STATS_RECEIVE * 256 + unat sequence)"
  by (simp add: XBeeBootSessionInit_def upt_3 XBEE_STATS_RECEIVE_def
        stats_clear_group_groupSummary stats_clear_group_other)

text \<open>
  Claim C10 (the summaries never divide by a sample count of zero) does not hold of the
  code: a session is in direct mode after \<^verbatim>\<open>XBeeBootSessionInit\<close>, the group
  FRAME_LOCAL has no sample, and \<^verbatim>\<open>xbee_close\<close> summarises it first, dividing by
  zero.
\<close>

theorem xbee_close_divides_by_zero:
  "fst (xbee_close (XBeeBootSessionInit xbs)) = Inl DivisionByZero"
  by (simp add: xbee_close_def Let_def serial_set_dtr_rts_def XBeeBootSessionInit_directMode
        XBeeBootSessionInit_samples xbeeStatsSummarise_def split: prod.splits)

subsection \<open>The frame codec\<close>

lemma escape_eq:
  "escape v = (if v = 0x7d \<or> v = 0x7e \<or> v = 0x11 \<or> v = 0x13 then [0x7d, v XOR 0x20] else [v])"
  by (simp add: escape_def fpput_def builder0_def)

lemma fp_fpput: "fp (fpput v b) = fp b @ escape v"
  by (simp add: escape_eq fpput_def)

lemma fold_fpput:
  "fold fpput vs b =
     b\<lparr>fp := fp b @ concat (map escape vs),
       checksum := checksum b - sum_list vs,
       len := len b + of_nat (length vs)\<rparr>"
proof (induction vs arbitrary: b)
  case Nil
  show ?case by simp
next
  case (Cons v vs)
  show ?case
    by (simp add: Cons fp_fpput) (simp add: fpput_def algebra_simps)
qed

lemma encode_frame_eq:
  "encode_frame content =
     0x7e # escape 0 @ escape (of_nat (length content)) @ concat (map escape content) @
     escape (0xff - sum_list content)"
  by (simp add: encode_frame_def frame_bytes_def Let_def fold_fpput fp_fpput builder0_def)

lemma escape_no_delimiter: "0x7e \<notin> set (escape v)"
  by (auto simp: escape_eq)

lemma escape_length: "length (escape v) \<le> 2 \<and> 1 \<le> length (escape v)"
  by (simp add: escape_eq)

lemma read_frame_no_delimiter:
  "0x7e \<notin> set bs \<Longrightarrow> read_frame BeforeFrame (map Rx bs) = (Inl (- 1), [])"
  by (induction bs) simp_all

lemma read_frame_store:
  assumes "length fr \<noteq> 1" and "length fr < 256"
  shows "read_frame (InFrame fr False fs) (map Rx (escape v) @ es) =
           (if length fr + 1 < fs then read_frame (InFrame (fr @ [v]) False fs) es
            else (Inr (fr @ [v]), es))"
proof -
  consider "v = 0x7d" | "v = 0x7e" | "v = 0x11" | "v = 0x13"
    | "v \<noteq> 0x7d" "v \<noteq> 0x7e" "v \<noteq> 0x11" "v \<noteq> 0x13"
    by blast
  then show ?thesis
    using assms by cases (simp_all add: escape_eq Let_def)
qed

lemma read_frame_store_length:
  "read_frame (InFrame [h] False fs) (map Rx (escape v) @ es) =
     (if (push_bit 8 (unat h) OR unat v) + 2 + 1 \<ge> 256 then read_frame BeforeFrame es
      else read_frame (InFrame [h, v] False ((push_bit 8 (unat h) OR unat v) + 2 + 1)) es)"
proof -
  consider "v = 0x7d" | "v = 0x7e" | "v = 0x11" | "v = 0x13"
    | "v \<noteq> 0x7d" "v \<noteq> 0x7e" "v \<noteq> 0x11" "v \<noteq> 0x13"
    by blast
  then show ?thesis
    by cases (simp_all add: escape_eq Let_def)
qed

lemma read_frame_body:
  "length fr \<ge> 2 \<Longrightarrow> vs \<noteq> [] \<Longrightarrow> length fr + length vs = fs \<Longrightarrow> fs \<le> 256 \<Longrightarrow>
   read_frame (InFrame fr False fs) (map Rx (concat (map escape vs)) @ es) = (Inr (fr @ vs), es)"
proof (induction vs arbitrary: fr)
  case Nil
  then show ?case by simp
next
  case (Cons v vs)
  from Cons.prems have fr: "length fr \<noteq> 1" "length fr < 256"
    by simp_all
  show ?case
  proof (cases "vs = []")
    case True
    with Cons.prems show ?thesis
      by (simp add: read_frame_store [OF fr])
  next
    case False
    with Cons.prems have "length fr + 1 < fs"
      by (cases vs) simp_all
    moreover have "read_frame (InFrame (fr @ [v]) False fs) (map Rx (concat (map escape vs)) @ es)
                     = (Inr ((fr @ [v]) @ vs), es)"
      using Cons.prems False by (intro Cons.IH) simp_all
    ultimately show ?thesis
      by (simp add: read_frame_store [OF fr])
  qed
qed

lemma fold_checksum: "fold (\<lambda>v c. c + v) vs (a::byte) = a + sum_list vs"
  by (induction vs arbitrary: a) (simp_all add: algebra_simps)

lemma unat_length_byte: "n < 256 \<Longrightarrow> unat (of_nat n :: byte) = n"
  by (simp add: unat_of_nat)

lemma read_frame_encode_frame:
  assumes "length content \<le> 252"
  shows "read_frame BeforeFrame (map Rx (encode_frame content) @ es) =
           (Inr ([0, of_nat (length content)] @ content @ [0xff - sum_list content]), es)"
proof -
  let ?L = "of_nat (length content) :: byte"
  let ?vs = "content @ [0xff - sum_list content]"
  have L: "unat ?L = length content"
    using assms by (simp add: unat_length_byte)
  have e0: "escape 0 = [0]"
    by (simp add: escape_eq)
  have "read_frame BeforeFrame (map Rx (encode_frame content) @ es) =
          read_frame (InFrame [0] False 2)
            (map Rx (escape ?L) @ (map Rx (concat (map escape ?vs)) @ es))"
    by (simp add: encode_frame_eq e0)
  also have "\<dots> = read_frame (InFrame [0, ?L] False (length content + 2 + 1))
                      (map Rx (concat (map escape ?vs)) @ es)"
    using assms by (simp only: read_frame_store_length) (simp add: L)
  also have "\<dots> = (Inr ([0, ?L] @ ?vs), es)"
    using assms by (intro read_frame_body) simp_all
  finally show ?thesis
    by simp
qed

lemma frame_checksum_encoded:
  "frame_checksum ([h0, h1] @ content @ [0xff - sum_list content]) = 0"
  by (simp add: frame_checksum_def fold_checksum)

lemma count_list_escape: "count_list (concat (map escape vs)) 0x7e = 0"
  by (induction vs) (simp_all add: escape_eq)

lemma count_list_encode_frame: "count_list (encode_frame content) 0x7e = 1"
  by (simp add: encode_frame_eq count_list_escape) (simp add: escape_eq)

lemma frame_fits_length:
  assumes "frame_fits (fold fpput content builder0)"
  shows "length content \<le> 250"
proof -
  have "length content \<le> length (concat (map escape content))"
    by (induction content) (simp_all add: escape_eq)
  moreover have "5 + (length (concat (map escape content)) + 1) \<le> 256"
    using assms escape_length [of "0xff - sum_list content"]
    by (simp add: frame_fits_def fold_fpput fp_fpput builder0_def)
  ultimately show ?thesis
    by simp
qed

text \<open>
  Claim C4, as stated, fails at 253 bytes: the decoder gives up on a frame whose length
  bytes announce more than 252 bytes of content (\<^verbatim>\<open>frameSize >= sizeof(frame)\<close>), so
  what the encoder makes of 253 zero bytes is not decoded; the read ends with the return
  code of the next failed \<^verbatim>\<open>recv\<close>.
\<close>

theorem read_frame_253_counterexample:
"fst (read_frame BeforeFrame (map Rx (encode_frame (replicate 253 0)))) = Inl (- 1)"
proof -
  let ?content = "replicate 253 (0::byte)"
  let ?vs = "?content @ [0xff - sum_list ?content]"
  have e0: "escape 0 = [0]"
    by (simp add: escape_eq)
  have "0x7e \<notin> set (concat (map escape ?vs))"
    using escape_no_delimiter by auto
  then have rest: "read_frame BeforeFrame (map Rx (concat (map escape ?vs))) = (Inl (- 1), [])"
    by (rule read_frame_no_delimiter)
  have "read_frame BeforeFrame (map Rx (encode_frame ?content)) =
          read_frame (InFrame [0] False 2)
            (map Rx (escape 253) @ map Rx (concat (map escape ?vs)))"
    by (simp add: encode_frame_eq e0)
  also have "\<dots> = read_frame BeforeFrame (map Rx (concat (map escape ?vs)))"
    by (simp only: read_frame_store_length) simp
  finally show ?thesis
    by (simp only: rest fst_conv)
qed

subsection \<open>What \<^verbatim>\<open>sendAPIRequest\<close> sends\<close>

lemma optional_fpput:
  "(if x \<ge> 0 then fpput (word_of_int x) b else b) = fold fpput (optional x) b"
  by (simp add: optional_def)

lemma sendAPIRequest_tail_eq:
  "sendAPIRequest_tail xbs b0 time pp1 pp2 pt sq ap data =
     (tx_result (serialDescriptor xbs) (length (tx (serialDescriptor xbs))),
      (if sq \<ge> 0 \<and> pt = XBEEBOOT_PACKET_TYPE_REQUEST
       then xbeedev_stats_send xbs XBEE_STATS_TRANSMIT (word_of_int sq) time else xbs)
       \<lparr>serialDescriptor := (serialDescriptor xbs)
          \<lparr>tx := tx (serialDescriptor xbs) @
             [frame_bytes (fold fpput (optional pp1 @ optional pp2 @ optional pt @ optional sq @
                                       optional ap @ data) b0)]\<rparr>\<rparr>)"
  unfolding sendAPIRequest_tail_def Let_def optional_fpput
  by (simp add: serial_send_def xbeedev_stats_send_def)



lemma api_stats_fields [simp]:
  "serialDescriptor (api_stats xbs t g p s) = serialDescriptor xbs"
  "xbee_address (api_stats xbs t g p s) = xbee_address xbs"
  "sourceRouteChanged (api_stats xbs t g p s) = sourceRouteChanged xbs"
  "sourceRouteHops (api_stats xbs t g p s) = sourceRouteHops xbs"
  "sourceRoute (api_stats xbs t g p s) = sourceRoute xbs"
  "txSequence (api_stats xbs t g p s) = txSequence xbs"
  "outSequence (api_stats xbs t g p s) = outSequence xbs"
  "inSequence (api_stats xbs t g p s) = inSequence xbs"
  "transportUnusable (api_stats xbs t g p s) = transportUnusable xbs"
  "directMode (api_stats xbs t g p s) = directMode xbs"
  "xbeeResetPin (api_stats xbs t g p s) = xbeeResetPin xbs"
  "inInIndex (api_stats xbs t g p s) = inInIndex xbs"
  "inOutIndex (api_stats xbs t g p s) = inOutIndex xbs"
  "inBuffer (api_stats xbs t g p s) = inBuffer xbs"
  "groupSummary (api_stats xbs t g p s) = groupSummary xbs"
  "clock (api_stats xbs t g p s) = clock xbs"
  by (simp_all add: api_stats_def Let_def xbeedev_stats_send_def)

lemma sendAPIRequest_plain:
  assumes "apiType = 0x08 \<or> apiType = 0x21 \<or> \<not> sourceRouteChanged xbs"
  shows "sendAPIRequest xbs apiType txSeq apiOption pp1 pp2 pt sq ap g data =
           (tx_result (serialDescriptor xbs) (length (tx (serialDescriptor xbs))),
            (api_stats xbs txSeq g pt sq)
              \<lparr>serialDescriptor := (serialDescriptor xbs)
                 \<lparr>tx := tx (serialDescriptor xbs) @
                    [encode_frame (api_content xbs apiType txSeq apiOption pp1 pp2 pt sq ap data)]\<rparr>\<rparr>)"
  using assms
  apply (subst sendAPIRequest.simps)
  unfolding Let_def optional_fpput sendAPIRequest_tail_eq gettimeofday_def
  apply (auto simp: encode_frame_def api_content_def api_stats_def Let_def xbeedev_stats_send_def)
  done

lemma sendAPIRequest_0x21:
  "sendAPIRequest xbs 0x21 txSeq apiOption pp1 pp2 pt sq ap g data =
     (tx_result (serialDescriptor xbs) (length (tx (serialDescriptor xbs))),
      (api_stats xbs txSeq g pt sq)
        \<lparr>serialDescriptor := (serialDescriptor xbs)
           \<lparr>tx := tx (serialDescriptor xbs) @
              [encode_frame (api_content xbs 0x21 txSeq apiOption pp1 pp2 pt sq ap data)]\<rparr>\<rparr>)"
  by (rule sendAPIRequest_plain) simp

lemma sendAPIRequest_routed:
  assumes "apiType \<noteq> 0x08" and "apiType \<noteq> 0x21" and "sourceRouteChanged xbs"
  shows "sendAPIRequest xbs apiType txSeq apiOption pp1 pp2 pt sq ap g data =
     (let p = serialDescriptor xbs;
          n = length (tx p);
          route = encode_frame
                    (api_content xbs 0x21 0 (- 1) 0 (sourceRouteHops xbs) (- 1) (- 1) (- 1)
                       (take (nat (sourceRouteHops xbs * 2)) (sourceRoute xbs)));
          xbs3 = (api_stats (api_stats xbs txSeq g (- 1) (- 1)) 0 XBEE_STATS_FRAME_LOCAL
                    (- 1) (- 1))
                   \<lparr>serialDescriptor := p\<lparr>tx := tx p @ [route]\<rparr>\<rparr>
      in if tx_result p n \<noteq> 0 then (tx_result p n, xbs3)
         else
           (tx_result p (n + 1),
            (if sq \<ge> 0 \<and> pt = XBEEBOOT_PACKET_TYPE_REQUEST
             then xbeedev_stats_send (xbs3\<lparr>sourceRouteChanged := False\<rparr>) XBEE_STATS_TRANSMIT
                    (word_of_int sq) (clock xbs (ticks xbs))
             else xbs3\<lparr>sourceRouteChanged := False\<rparr>)
              \<lparr>serialDescriptor :=
                 p\<lparr>tx := tx p @
                    [route,
                     encode_frame
                       (api_content xbs apiType txSeq apiOption pp1 pp2 pt sq ap data)]\<rparr>\<rparr>))"
proof -
  let ?xbs2 = "api_stats xbs txSeq g (- 1) (- 1)"
  have xbs2: "(if txSeq \<ge> 0
               then xbeedev_stats_send (xbs\<lparr>ticks := ticks xbs + 1\<rparr>) g (word_of_int txSeq)
                      (clock xbs (ticks xbs))
               else xbs\<lparr>ticks := ticks xbs + 1\<rparr>) = ?xbs2"
    by (simp add: api_stats_def Let_def)
  have "sendAPIRequest xbs apiType txSeq apiOption pp1 pp2 pt sq ap g data =
          (case sendAPIRequest ?xbs2 0x21 0 (- 1) 0 (sourceRouteHops ?xbs2) (- 1) (- 1) (- 1)
                  XBEE_STATS_FRAME_LOCAL
                  (take (nat (sourceRouteHops ?xbs2 * 2)) (sourceRoute ?xbs2)) of
             (rc, xbs3) \<Rightarrow>
               if rc \<noteq> 0 then (rc, xbs3)
               else sendAPIRequest_tail (xbs3\<lparr>sourceRouteChanged := False\<rparr>)
                      (fold fpput (take 10 (xbee_address ?xbs2))
                         (fold fpput (optional txSeq)
                            (fold fpput (optional apiOption) (fpput apiType builder0))))
                      (clock xbs (ticks xbs)) pp1 pp2 pt sq ap data)"
    using assms
    apply (subst sendAPIRequest.simps)
    unfolding Let_def optional_fpput gettimeofday_def prod.case xbs2
    apply simp
    done
  then show ?thesis
    unfolding sendAPIRequest_0x21 prod.case sendAPIRequest_tail_eq Let_def
    using assms(1)
    by (simp add: encode_frame_def api_content_def xbeedev_stats_send_def)
qed

text \<open>
  Claim C5: when \<^verbatim>\<open>sourceRouteChanged\<close> is set (with a hop count that is not
  negative, as \<^verbatim>\<open>xbeedev_poll\<close> records it), a call of \<^verbatim>\<open>sendAPIRequest\<close> for an
  API type other than \<open>0x08\<close> and \<open>0x21\<close> first hands to the serial port a
  \<open>0x21\<close> Create Source Route frame with frame id 0, the address, route options 0, the
  cached hop count and the cached hop vector. When the port accepts it (return code 0)
  the flag is cleared and the addressed frame is the very next one sent; when the port
  refuses it, the addressed frame is not sent and the flag stays set for the next call.
\<close>

theorem sendAPIRequest_source_route_first:
assumes "apiType \<noteq> 0x08" and "apiType \<noteq> 0x21"
    and "sourceRouteChanged xbs" and "0 \<le> sourceRouteHops xbs"
    and "sendAPIRequest xbs apiType txSeq apiOption pp1 pp2 pt sq ap g data = (rc, xbs')"
  shows
    "tx (serialDescriptor xbs') =
       tx (serialDescriptor xbs) @
       encode_frame ([0x21, 0] @ take 10 (xbee_address xbs) @
                     [0, word_of_int (sourceRouteHops xbs)] @
                     take (nat (sourceRouteHops xbs * 2)) (sourceRoute xbs)) #
       (if tx_result (serialDescriptor xbs) (length (tx (serialDescriptor xbs))) = 0
        then [encode_frame (api_content xbs apiType txSeq apiOption pp1 pp2 pt sq ap data)]
        else []) \<and>
     sourceRouteChanged xbs' =
       (tx_result (serialDescriptor xbs) (length (tx (serialDescriptor xbs))) \<noteq> 0) \<and>
     rc = (if tx_result (serialDescriptor xbs) (length (tx (serialDescriptor xbs))) = 0
           then tx_result (serialDescriptor xbs) (length (tx (serialDescriptor xbs)) + 1)
           else tx_result (serialDescriptor xbs) (length (tx (serialDescriptor xbs))))"
proof -
  have route: "api_content xbs 0x21 0 (- 1) 0 (sourceRouteHops xbs) (- 1) (- 1) (- 1)
                 (take (nat (sourceRouteHops xbs * 2)) (sourceRoute xbs)) =
               [0x21, 0] @ take 10 (xbee_address xbs) @ [0, word_of_int (sourceRouteHops xbs)] @
               take (nat (sourceRouteHops xbs * 2)) (sourceRoute xbs)"
    using assms(4) by (simp add: api_content_def optional_def)
  from assms(5) show ?thesis
    unfolding sendAPIRequest_routed [OF assms(1-3)] Let_def route
    using assms(3) by (auto simp: xbeedev_stats_send_def split: if_splits)
qed

theorem sendAPIRequest_source_route_first_witness:
"tx (serialDescriptor
        (snd (sendAPIRequest routed_session 0x10 1 (- 1) 0 0 1 1 23 XBEE_STATS_FRAME_REMOTE
                [0x30, 0x20]))) =
     [[0x7e, 0, 0x12, 0x21, 0, 0, 0x7d, 0x33, 0xa2, 0, 0x12, 0x34, 0x56, 0x78, 0xff, 0xfe, 0, 2,
       0xab, 0xcd, 0x12, 0x34, 0x58],
      [0x7e, 0, 0x7d, 0x33, 0x10, 1, 0, 0x7d, 0x33, 0xa2, 0, 0x12, 0x34, 0x56, 0x78, 0xff, 0xfe,
       0, 0, 1, 1, 23, 0x30, 0x20, 0xbf]] \<and>
   \<not> sourceRouteChanged
        (snd (sendAPIRequest routed_session 0x10 1 (- 1) 0 0 1 1 23 XBEE_STATS_FRAME_REMOTE
                [0x30, 0x20]))"
proof -
  let ?r = "sendAPIRequest routed_session 0x10 1 (- 1) 0 0 1 1 23 XBEE_STATS_FRAME_REMOTE
              [0x30, 0x20]"
  have r: "?r = (fst ?r, snd ?r)"
    by simp
  have c: "sourceRouteChanged routed_session" "0 \<le> sourceRouteHops routed_session"
    by (simp_all add: routed_session_def)
  have t: "(0x10::byte) \<noteq> 0x08" "(0x10::byte) \<noteq> 0x21"
    by simp_all
  note sendAPIRequest_source_route_first [OF t c r]
  then show ?thesis
    by (simp add: routed_session_def example_session_def example_port_def api_content_def
          optional_def encode_frame_def frame_bytes_def fpput_def builder0_def Let_def)
qed

subsection \<open>What every operation preserves\<close>

lemma sequence_advance_refl [simp]: "sequence_advance c c"
  unfolding sequence_advance_def by (rule exI [of _ 0]) simp

lemma sequence_advance_next [simp]: "sequence_advance c (next_sequence c)"
  unfolding sequence_advance_def by (rule exI [of _ 1]) simp

lemma sequence_advance_trans:
  "sequence_advance a b \<Longrightarrow> sequence_advance b c \<Longrightarrow> sequence_advance a c"
proof -
  assume "sequence_advance a b" and "sequence_advance b c"
  then obtain k l where "b = (next_sequence ^^ k) a" and "c = (next_sequence ^^ l) b"
    unfolding sequence_advance_def by blast
  then have "c = (next_sequence ^^ (l + k)) a"
    by (simp add: funpow_add)
  then show ?thesis
    unfolding sequence_advance_def by blast
qed

lemma sequence_advance_nonzero: "sequence_advance c c' \<Longrightarrow> c' = c \<or> c' \<noteq> 0"
proof -
  assume "sequence_advance c c'"
  then obtain k where k: "c' = (next_sequence ^^ k) c"
    unfolding sequence_advance_def by blast
  show ?thesis
  proof (cases k)
    case 0
    with k show ?thesis by simp
  next
    case (Suc j)
    with k show ?thesis by (simp add: next_sequence_nonzero)
  qed
qed

lemma session_step_refl [simp]: "session_step xbs xbs"
  by (simp add: session_step_def)

lemma session_step_trans: "session_step a b \<Longrightarrow> session_step b c \<Longrightarrow> session_step a c"
proof -
  assume ab: "session_step a b" and bc: "session_step b c"
  from ab obtain f where f: "tx (serialDescriptor b) = tx (serialDescriptor a) @ f"
    unfolding session_step_def by blast
  from bc obtain g where g: "tx (serialDescriptor c) = tx (serialDescriptor b) @ g"
    unfolding session_step_def by blast
  have "tx (serialDescriptor c) = tx (serialDescriptor a) @ (f @ g)"
    using f g by simp
  then have "\<exists>frames. tx (serialDescriptor c) = tx (serialDescriptor a) @ frames"
    by blast
  moreover have "sequence_advance (txSequence a) (txSequence c)"
    "sequence_advance (outSequence a) (outSequence c)"
    "sequence_advance (inSequence a) (inSequence c)"
    using ab bc unfolding session_step_def by (blast intro: sequence_advance_trans)+
  ultimately show ?thesis
    using ab bc unfolding session_step_def by simp
qed

lemma session_step_api_stats [simp]: "session_step xbs (api_stats xbs t g p s)"
  by (simp add: session_step_def route_known_def)

lemma session_step_sendAPIRequest:
  "session_step xbs (snd (sendAPIRequest xbs apiType txSeq apiOption pp1 pp2 pt sq ap g data))"
proof (cases "apiType = 0x08 \<or> apiType = 0x21 \<or> \<not> sourceRouteChanged xbs")
  case True
  then show ?thesis
    by (simp add: sendAPIRequest_plain session_step_def route_known_def)
next
  case False
  then show ?thesis
    by (simp add: sendAPIRequest_routed session_step_def Let_def xbeedev_stats_send_def
          route_known_def)
qed

lemma session_step_sendPacket:
  "session_step xbs (snd (sendPacket xbs pt sq ap data))"
proof -
  let ?xbs1 = "xbs\<lparr>txSequence := next_sequence (txSequence xbs)\<rparr>"
  have "session_step xbs ?xbs1"
    by (simp add: session_step_def route_known_def)
  moreover have "session_step ?xbs1 (snd (sendPacket xbs pt sq ap data))"
    by (simp add: sendPacket_def Let_def session_step_sendAPIRequest split: prod.splits)
  ultimately show ?thesis
    by (rule session_step_trans)
qed

lemma session_step_deliver:
  "session_step xbs (fst (snd (deliver xbs client ds)))"
proof (induction xbs client ds rule: deliver.induct)
  case (1 xbs client)
  show ?case by simp
next
  case (2 xbs client d ds)
  let ?xbs1 = "xbs\<lparr>inBuffer := (inBuffer xbs)(inInIndex xbs := d), inInIndex := inInIndex xbs + 1\<rparr>"
  have s1: "session_step xbs ?xbs1"
    by (simp add: session_step_def route_known_def)
  have s2: "session_step ?xbs1 (?xbs1\<lparr>transportUnusable := True\<rparr>)"
    by (simp add: session_step_def route_known_def)
  show ?case
  proof (cases client)
    case None
    with 2 s1 s2 show ?thesis
      by (auto simp: Let_def intro: session_step_trans)
  next
    case (Some a)
    obtain buf buflen where a: "a = (buf, buflen)"
      by (cases a)
    show ?thesis
    proof (cases buflen)
      case 0
      with 2 s1 s2 Some a show ?thesis
        by (auto simp: Let_def intro: session_step_trans)
    next
      case (Suc n)
      with 2 Some a show ?thesis
        by simp
    qed
  qed
qed

lemma session_step_stats_receive [simp]:
  "session_step xbs (xbeedev_stats_receive xbs g sq t)"
  by (simp add: session_step_def route_known_def xbeedev_stats_receive_def Let_def)

lemma session_step_stats_send [simp]:
  "session_step xbs (xbeedev_stats_send xbs g sq t)"
  by (simp add: session_step_def route_known_def xbeedev_stats_send_def)

lemma session_step_record16Bit [simp]:
  "session_step xbs (xbeedev_record16Bit xbs a)"
  by (simp add: session_step_def route_known_def xbeedev_record16Bit_def Let_def)

lemma session_step_poll_route_record [simp]:
  "session_step xbs (poll_route_record xbs frame)"
  by (simp add: poll_route_record_def Let_def session_step_def route_known_def
        xbeedev_record16Bit_def)

lemma session_step_poll_packet:
  "session_step xbs (fst (snd (poll_packet xbs client wa pdata t)))"
proof -
  let ?sq = "pdata ! 1"
  let ?xbs1 = "xbeedev_stats_receive xbs XBEE_STATS_RECEIVE ?sq t"
  let ?next = "next_sequence (inSequence ?xbs1)"
  let ?xbs2 = "?xbs1\<lparr>inSequence := ?next\<rparr>"
  let ?d = "deliver ?xbs2 client (take (length pdata - 3) (drop 3 pdata))"
  let ?xbs3 = "fst (snd ?d)"
  let ?xbs4 = "snd (sendPacket ?xbs3 (word_of_int XBEEBOOT_PACKET_TYPE_ACK) ?sq (- 1) [])"
  have s2: "session_step xbs ?xbs2"
    by (simp add: session_step_def route_known_def xbeedev_stats_receive_def Let_def)
  have s3: "session_step xbs ?xbs3"
    using s2 session_step_deliver by (rule session_step_trans)
  have s4: "session_step xbs ?xbs4"
    using s3 session_step_sendPacket by (rule session_step_trans)
  have s5: "session_step xbs (xbeedev_stats_send ?xbs4 g sq' t')" for g sq' t'
    using s4 session_step_stats_send by (rule session_step_trans)
  show ?thesis
    unfolding poll_packet_def Let_def
    using s3 s4 s5
    by (auto split: prod.splits bool.splits option.splits nat.splits)
qed

lemma session_step_poll_frame:
  "session_step xbs (fst (snd (poll_frame xbs client wa ws frame t)))"
proof -
  have "session_step xbs (fst (snd (poll_packet (xbeedev_record16Bit xbs a) client wa pdata t)))"
    for a pdata
    using session_step_record16Bit session_step_poll_packet by (rule session_step_trans)
  then show ?thesis
    by (simp add: poll_frame_def Let_def session_step_poll_packet)
qed

lemma session_step_poll:
  "session_step xbs (fst (snd (xbeedev_poll xbs client wa ws)))"
proof (induction xbs client rule: xbeedev_poll_cases [where wa = wa and ws = ws])
  case (Fail xbs client rc rest)
  then show ?case
    by (simp add: xbeedev_poll_fail session_step_def route_known_def)
next
  case (BadChecksum xbs client frame rest)
  have "session_step xbs (set_rx xbs rest)"
    by (simp add: session_step_def route_known_def)
  with BadChecksum show ?case
    by (auto simp: xbeedev_poll_bad_checksum [OF BadChecksum(1,2)] intro: session_step_trans)
next
  case (Return xbs client frame rest rc xbs3 client')
  let ?x = "set_rx xbs rest\<lparr>ticks := ticks xbs + 1\<rparr>"
  have "session_step xbs ?x"
    by (simp add: session_step_def route_known_def)
  moreover have "session_step ?x xbs3"
    using session_step_poll_frame [of ?x client wa ws frame "clock xbs (ticks xbs)"] Return(3)
    by simp
  ultimately show ?case
    by (auto simp: xbeedev_poll_return [OF Return(1-3)] intro: session_step_trans)
next
  case (Again xbs client frame rest xbs3 client')
  let ?x = "set_rx xbs rest\<lparr>ticks := ticks xbs + 1\<rparr>"
  have "session_step xbs ?x"
    by (simp add: session_step_def route_known_def)
  moreover have "session_step ?x xbs3"
    using session_step_poll_frame [of ?x client wa ws frame "clock xbs (ticks xbs)"] Again(3)
    by simp
  ultimately have "session_step xbs xbs3"
    by (rule session_step_trans)
  with Again(4) show ?case
    by (auto simp: xbeedev_poll_again [OF Again(1-3)] intro: session_step_trans)
qed

lemma session_step_poll':
  "xbeedev_poll xbs client wa ws = (rc, xbs', client') \<Longrightarrow> session_step xbs xbs'"
  using session_step_poll [of xbs client wa ws] by simp

lemma session_step_sendPacket':
  "sendPacket xbs pt sq ap data = (rc, xbs') \<Longrightarrow> session_step xbs xbs'"
  using session_step_sendPacket [of xbs pt sq ap data] by simp



lemma session_step_sendAT_poll:
  "session_step xbs (snd (sendAT_poll n xbs sq))"
proof (induction n arbitrary: xbs)
  case 0
  show ?case by simp
next
  case (Suc n)
  obtain rc xbs1 client where p: "xbeedev_poll xbs None (- 1) (uint sq) = (rc, xbs1, client)"
    using prod_cases3 by blast
  from session_step_poll' [OF p] Suc [of xbs1] have "session_step xbs (snd (sendAT_poll n xbs1 sq))"
    by (rule session_step_trans)
  with p session_step_poll' [OF p] show ?case
    by simp
qed




lemma session_step_flag: "session_step xbs (xbs\<lparr>transportUnusable := True\<rparr>)"
  by (simp add: session_step_def route_known_def)

lemma session_step_send_attempts:
  "session_step xbs (snd (send_attempts n xbs sq chunk p0))"
proof (induction n arbitrary: xbs p0)
  case 0
  show ?case by simp
next
  case (Suc n)
  obtain sendRc xbs1 where sp:
    "sendPacket xbs (word_of_int XBEEBOOT_PACKET_TYPE_REQUEST) sq 23 chunk = (sendRc, xbs1)"
    by (cases "sendPacket xbs (word_of_int XBEEBOOT_PACKET_TYPE_REQUEST) sq 23 chunk")
  obtain pollRc xbs2 client where po:
    "xbeedev_poll xbs1 None (uint sq) (- 1) = (pollRc, xbs2, client)"
    using prod_cases3 by blast
  obtain ackRc xbs3 where ak:
    "sendPacket xbs2 (word_of_int XBEEBOOT_PACKET_TYPE_ACK) (inSequence xbs2) (- 1) [] = (ackRc, xbs3)"
    by (cases "sendPacket xbs2 (word_of_int XBEEBOOT_PACKET_TYPE_ACK) (inSequence xbs2) (- 1) []")
  note s1 = session_step_sendPacket' [OF sp]
  note s2 = session_step_trans [OF s1 session_step_poll' [OF po]]
  note s3 = session_step_trans [OF s2 session_step_sendPacket' [OF ak]]
  have f1: "session_step xbs (xbs1\<lparr>transportUnusable := True\<rparr>)"
    using s1 session_step_flag by (rule session_step_trans)
  have f3: "session_step xbs (xbs3\<lparr>transportUnusable := True\<rparr>)"
    using s3 session_step_flag by (rule session_step_trans)
  have r2: "session_step xbs (snd (send_attempts n xbs2 sq chunk p))" for p
    using s2 Suc by (rule session_step_trans)
  have r3: "session_step xbs (snd (send_attempts n xbs3 sq chunk p))" for p
    using s3 Suc by (rule session_step_trans)
  from sp po ak s2 f1 f3 r2 r3 show ?case
    by simp
qed








lemma session_step_recv_attempts:
  "session_step xbs (fst (snd (recv_attempts n xbs client)))"
proof (induction n arbitrary: xbs client)
  case 0
  show ?case by simp
next
  case (Suc n)
  obtain rc xbs1 client1 where po: "xbeedev_poll xbs client (- 1) (- 1) = (rc, xbs1, client1)"
    using prod_cases3 by blast
  obtain ackRc xbs2 where ak:
    "sendPacket xbs1 (word_of_int XBEEBOOT_PACKET_TYPE_ACK) (inSequence xbs1) (- 1) [] = (ackRc, xbs2)"
    by (cases "sendPacket xbs1 (word_of_int XBEEBOOT_PACKET_TYPE_ACK) (inSequence xbs1) (- 1) []")
  note s1 = session_step_poll' [OF po]
  note s2 = session_step_trans [OF s1 session_step_sendPacket' [OF ak]]
  have r1: "session_step xbs (fst (snd (recv_attempts n xbs1 c)))" for c
    using s1 Suc by (rule session_step_trans)
  have r2: "session_step xbs (fst (snd (recv_attempts n xbs2 c)))" for c
    using s2 Suc by (rule session_step_trans)
  from po ak s1 r1 r2 show ?case
    by simp
qed





subsection \<open>The route to be sent has a hop count\<close>

text \<open>
  \<^verbatim>\<open>XBeeBootSessionInit\<close> clears \<^verbatim>\<open>sourceRouteChanged\<close>, and \<^verbatim>\<open>xbeedev_poll\<close> sets
  it only together with a hop count read from one byte of a Route Record Indicator.
\<close>

lemma route_known_step: "session_step xbs xbs' \<Longrightarrow> route_known xbs \<Longrightarrow> route_known xbs'"
  by (simp add: session_step_def)

lemma fold_stats_clear_index_route:
  "sourceRouteChanged (fold (stats_clear_index g) is xbs) = sourceRouteChanged xbs"
  by (induction "is" arbitrary: xbs) (simp_all add: stats_clear_index_def)

lemma stats_clear_group_route:
  "sourceRouteChanged (stats_clear_group g xbs) = sourceRouteChanged xbs"
  by (simp add: stats_clear_group_def Let_def fold_stats_clear_index_route)

lemma XBeeBootSessionInit_route:
  "\<not> sourceRouteChanged (XBeeBootSessionInit xbs)"
  by (simp add: XBeeBootSessionInit_def upt_3 stats_clear_group_route)

lemma route_known_XBeeBootSessionInit: "route_known (XBeeBootSessionInit xbs)"
  by (simp add: route_known_def XBeeBootSessionInit_route)

subsection \<open>The size of the frames of a send\<close>

lemma frames_within_same:
  "tx (serialDescriptor xbs') = tx (serialDescriptor xbs) \<Longrightarrow> frames_within N xbs xbs'"
  by (simp add: frames_within_def)

lemma frames_within_refl [simp]: "frames_within N xbs xbs"
  by (simp add: frames_within_same)







lemma optional_uint [simp]: "optional (uint (x::byte)) = [x]"
  by (simp add: optional_def)

























text \<open>What the calls hand to the port.\<close>

lemma sendAPIRequest_tx:
  "tx (serialDescriptor
         (snd (sendAPIRequest xbs apiType txSeq apiOption pp1 pp2 pt sq ap g data))) =
     tx (serialDescriptor xbs) @
     (if apiType \<noteq> 0x08 \<and> apiType \<noteq> 0x21 \<and> sourceRouteChanged xbs
      then [route_frame xbs] else []) @
     (if apiType \<noteq> 0x08 \<and> apiType \<noteq> 0x21 \<and> sourceRouteChanged xbs \<and>
         tx_result (serialDescriptor xbs) (length (tx (serialDescriptor xbs))) \<noteq> 0
      then []
      else [encode_frame (api_content xbs apiType txSeq apiOption pp1 pp2 pt sq ap data)])"
proof (cases "apiType = 0x08 \<or> apiType = 0x21 \<or> \<not> sourceRouteChanged xbs")
  case True
  then show ?thesis
    by (auto simp: sendAPIRequest_plain)
next
  case False
  then show ?thesis
    by (simp add: sendAPIRequest_routed Let_def xbeedev_stats_send_def route_frame_def)
qed

lemma packet_frame_eq:
  "encode_frame (api_content xbs (if directMode xbs then 0x90 else 0x10) (uint t) (- 1)
                   (if directMode xbs then - 1 else 0) (if directMode xbs then - 1 else 0)
                   (uint pt) (uint sq) ap data) =
   packet_frame xbs t pt sq ap data"
  by (simp add: packet_frame_def api_content_def) (simp add: optional_def)

lemma sendPacket_tx:
  "tx (serialDescriptor (snd (sendPacket xbs pt sq ap data))) =
     tx (serialDescriptor xbs) @
     (if sourceRouteChanged xbs then [route_frame xbs] else []) @
     (if sourceRouteChanged xbs \<and>
         tx_result (serialDescriptor xbs) (length (tx (serialDescriptor xbs))) \<noteq> 0
      then []
      else [packet_frame xbs (next_sequence (txSequence xbs)) pt sq ap data])"
proof -
  let ?xbs1 = "xbs\<lparr>txSequence := next_sequence (txSequence xbs)\<rparr>"
  have r: "route_frame ?xbs1 = route_frame xbs"
    by (simp add: route_frame_def api_content_def)
  have p: "encode_frame (api_content ?xbs1 (if directMode xbs then 0x90 else 0x10)
                           (uint (next_sequence (txSequence xbs))) (- 1)
                           (if directMode xbs then - 1 else 0) (if directMode xbs then - 1 else 0)
                           (uint pt) (uint sq) ap data) =
           packet_frame xbs (next_sequence (txSequence xbs)) pt sq ap data"
    using packet_frame_eq [of ?xbs1 "next_sequence (txSequence xbs)" pt sq ap data]
    by (simp add: packet_frame_def)
  show ?thesis
  proof (cases "directMode xbs")
    case True
    with p show ?thesis
      by (simp add: sendPacket_def Let_def sendAPIRequest_tx r)
  next
    case False
    with p show ?thesis
      by (simp add: sendPacket_def Let_def sendAPIRequest_tx r)
  qed
qed

lemma session_step_tx:
  "session_step xbs xbs' \<Longrightarrow>
   \<exists>rest. tx (serialDescriptor xbs') = tx (serialDescriptor xbs) @ rest"
  by (simp add: session_step_def)







subsection \<open>The three sequence counters\<close>








subsection \<open>The reset line over the air\<close>

lemma set_rx_same: "rx (serialDescriptor xbs) = rest \<Longrightarrow> set_rx xbs rest = xbs"
  by auto

lemma xbeedev_poll_silent:
  "rx (serialDescriptor xbs) = [] \<Longrightarrow> xbeedev_poll xbs client wa ws = (- 1, xbs, client)"
  using xbeedev_poll_fail [of xbs "- 1" "[]" client wa ws] by (simp add: set_rx_same)

lemma sendAT_poll_silent:
  "rx (serialDescriptor xbs) = [] \<Longrightarrow> sendAT_poll n xbs sq = (- 1, xbs)"
  by (induction n) (simp_all add: xbeedev_poll_silent XBEE_AT_RETURN_CODE_def)

lemma sendAT_tx:
  assumes "\<not> directMode xbs"
  shows "\<exists>rest. new_frames xbs (snd (sendAT xbs at1 at2 val)) =
     (if sourceRouteChanged xbs then [route_frame xbs] else []) @
     (if sourceRouteChanged xbs \<and>
         tx_result (serialDescriptor xbs) (length (tx (serialDescriptor xbs))) \<noteq> 0
      then []
      else [encode_frame ([0x17, next_sequence (txSequence xbs)] @ take 10 (xbee_address xbs) @
                          [0x02, at1, at2] @ optional val)]) @
     rest"
proof -
  let ?xbs1 = "xbs\<lparr>txSequence := next_sequence (txSequence xbs)\<rparr>"
  let ?buf = "[at1, at2] @ (if val \<ge> 0 then [word_of_int val] else [])"
  let ?s = "sendAPIRequest ?xbs1 0x17 (uint (txSequence ?xbs1)) (- 1) (- 1) (- 1)
      (- 1) 0x02 (- 1) XBEE_STATS_FRAME_REMOTE ?buf"
  obtain rc xbs2 where s: "?s = (rc, xbs2)"
    by (cases ?s)
  have r: "route_frame ?xbs1 = route_frame xbs"
    by (simp add: route_frame_def api_content_def)
  have c: "api_content ?xbs1 0x17 (uint (next_sequence (txSequence xbs))) (- 1) (- 1) (- 1)
             (- 1) 0x02 (- 1) ?buf =
           [0x17, next_sequence (txSequence xbs)] @ take 10 (xbee_address xbs) @
           [0x02, at1, at2] @ optional val"
    by (simp add: api_content_def) (simp add: optional_def)
  obtain rest where rest:
    "tx (serialDescriptor (snd (sendAT_poll 30 xbs2 (txSequence ?xbs1)))) =
       tx (serialDescriptor xbs2) @ rest"
    using session_step_tx [OF session_step_sendAT_poll] by blast
  have "tx (serialDescriptor xbs2) = tx (serialDescriptor (snd ?s))"
    using s by simp
  also have "\<dots> = tx (serialDescriptor xbs) @
     (if sourceRouteChanged xbs then [route_frame xbs] else []) @
     (if sourceRouteChanged xbs \<and>
         tx_result (serialDescriptor xbs) (length (tx (serialDescriptor xbs))) \<noteq> 0
      then []
      else [encode_frame ([0x17, next_sequence (txSequence xbs)] @ take 10 (xbee_address xbs) @
                          [0x02, at1, at2] @ optional val)])"
    unfolding sendAPIRequest_tx r by (auto simp: api_content_def optional_def)
  finally have "tx (serialDescriptor (snd (sendAT xbs at1 at2 val))) =
     tx (serialDescriptor xbs) @
     (if sourceRouteChanged xbs then [route_frame xbs] else []) @
     (if sourceRouteChanged xbs \<and>
         tx_result (serialDescriptor xbs) (length (tx (serialDescriptor xbs))) \<noteq> 0
      then []
      else [encode_frame ([0x17, next_sequence (txSequence xbs)] @ take 10 (xbee_address xbs) @
                          [0x02, at1, at2] @ optional val)]) @ rest"
    using assms s rest by (simp add: sendAT_def Let_def)
  then show ?thesis
    by (simp add: new_frames_def)
qed

lemma set_dtr_rts_state:
  "\<not> directMode xbs \<Longrightarrow>
   snd (xbeedev_set_dtr_rts xbs is_on) =
     snd (sendAT xbs 0x44 (word_of_int (0x30 + xbeeResetPin xbs)) (if is_on \<noteq> 0 then 5 else 4))"
  by (simp add: xbeedev_set_dtr_rts_def split: prod.splits)

lemma sendAT_silent:
  assumes "\<not> directMode xbs" and "\<not> sourceRouteChanged xbs"
    and "rx (serialDescriptor xbs) = []"
  shows "tx (serialDescriptor (snd (sendAT xbs at1 at2 val))) =
           tx (serialDescriptor xbs) @
           [encode_frame ([0x17, next_sequence (txSequence xbs)] @ take 10 (xbee_address xbs) @
                          [0x02, at1, at2] @ optional val)]"
proof -
  let ?xbs1 = "xbs\<lparr>txSequence := next_sequence (txSequence xbs)\<rparr>"
  let ?buf = "[at1, at2] @ (if val \<ge> 0 then [word_of_int val] else [])"
  let ?s = "sendAPIRequest ?xbs1 0x17 (uint (txSequence ?xbs1)) (- 1) (- 1) (- 1)
      (- 1) 0x02 (- 1) XBEE_STATS_FRAME_REMOTE ?buf"
  obtain rc xbs2 where s: "?s = (rc, xbs2)"
    by (cases ?s)
  have p: "(0x17::byte) = 0x08 \<or> (0x17::byte) = 0x21 \<or> \<not> sourceRouteChanged ?xbs1"
    using assms(2) by simp
  from s have x2: "rx (serialDescriptor xbs2) = []"
    "tx (serialDescriptor xbs2) = tx (serialDescriptor xbs) @
       [encode_frame ([0x17, next_sequence (txSequence xbs)] @ take 10 (xbee_address xbs) @
                      [0x02, at1, at2] @ optional val)]"
    unfolding sendAPIRequest_plain [OF p] using assms(3)
    by (auto simp: api_content_def optional_def)
  from assms(1) s show ?thesis
    by (simp add: sendAT_def Let_def sendAT_poll_silent [OF x2(1)] x2(2))
qed

text \<open>
  Claim C7, as stated, fails: on the example session, with the reset pin 3,
  \<^verbatim>\<open>xbeedev_set_dtr_rts\<close> with \<^verbatim>\<open>is_on\<close> = 1 sends the Remote AT command
  \<^verbatim>\<open>D3\<close> with the parameter 5, and with \<^verbatim>\<open>is_on\<close> = 0 the parameter 4: the source
  passes \<^verbatim>\<open>is_on ? 5 : 4\<close>.
\<close>

theorem xbeedev_set_dtr_rts_counterexample:
  "tx (serialDescriptor (snd (xbeedev_set_dtr_rts example_session 1))) =
     [[0x7e, 0, 0x10, 0x17, 1, 0, 0x7d, 0x33, 0xa2, 0, 0x12, 0x34, 0x56, 0x78, 0xff, 0xfe,
       0x02, 0x44, 0x33, 5, 0xa3]] \<and>
   tx (serialDescriptor (snd (xbeedev_set_dtr_rts example_session 0))) =
     [[0x7e, 0, 0x10, 0x17, 1, 0, 0x7d, 0x33, 0xa2, 0, 0x12, 0x34, 0x56, 0x78, 0xff, 0xfe,
       0x02, 0x44, 0x33, 4, 0xa4]]"
proof -
  have d: "\<not> directMode example_session" "\<not> sourceRouteChanged example_session"
    "rx (serialDescriptor example_session) = []"
    by (simp_all add: example_session_def example_port_def)
  have n: "next_sequence 0 = 1"
    by (simp add: next_sequence_eq)
  show ?thesis
    unfolding set_dtr_rts_state [OF d(1)] sendAT_silent [OF d]
    by (simp add: n example_session_def example_port_def optional_def
          encode_frame_def frame_bytes_def fpput_def builder0_def)
qed

text \<open>
  Claim C7, amended: over the air, \<^verbatim>\<open>xbeedev_set_dtr_rts\<close> hands to the port, after
  the Create Source Route frame if one is due and was accepted, a Remote AT Command frame
  (type \<open>0x17\<close>) with the next frame id, the address, the options \<open>0x02\<close>, the
  command \<^verbatim>\<open>D\<close> followed by the digit of the reset pin (\<^verbatim>\<open>D3\<close> for the default
  pin) and the parameter 5 when \<^verbatim>\<open>is_on\<close> is not 0, the parameter 4 when it is 0.
\<close>

theorem xbeedev_set_dtr_rts_remote_AT:
  assumes "\<not> directMode xbs"
  shows "\<exists>rest. new_frames xbs (snd (xbeedev_set_dtr_rts xbs is_on)) =
     (if sourceRouteChanged xbs then [route_frame xbs] else []) @
     (if sourceRouteChanged xbs \<and>
         tx_result (serialDescriptor xbs) (length (tx (serialDescriptor xbs))) \<noteq> 0
      then []
      else [encode_frame ([0x17, next_sequence (txSequence xbs)] @ take 10 (xbee_address xbs) @
                          [0x02, 0x44, word_of_int (0x30 + xbeeResetPin xbs),
                           if is_on \<noteq> 0 then 5 else 4])]) @
     rest"
proof -
  have o: "optional (if is_on \<noteq> 0 then 5 else 4) = [if is_on \<noteq> 0 then 5 else 4]"
    by (simp add: optional_def)
  from sendAT_tx [OF assms, of "0x44" "word_of_int (0x30 + xbeeResetPin xbs)"
      "if is_on \<noteq> 0 then 5 else 4"]
  show ?thesis
    unfolding set_dtr_rts_state [OF assms]
    by (simp only: o append_Cons append_Nil)
qed

theorem xbeedev_set_dtr_rts_remote_AT_witness:
  "\<not> directMode example_session \<and>
   (\<exists>rest. new_frames example_session (snd (xbeedev_set_dtr_rts example_session 1)) =
      [0x7e, 0, 0x10, 0x17, 1, 0, 0x7d, 0x33, 0xa2, 0, 0x12, 0x34, 0x56, 0x78, 0xff, 0xfe,
       0x02, 0x44, 0x33, 5, 0xa3] # rest)"
proof -
  have d: "\<not> directMode example_session"
    by (simp add: example_session_def)
  have s: "\<not> sourceRouteChanged example_session" "txSequence example_session = 0"
    "xbeeResetPin example_session = 3"
    "xbee_address example_session = [0x00, 0x13, 0xa2, 0x00, 0x12, 0x34, 0x56, 0x78, 0xff, 0xfe]"
    by (simp_all add: example_session_def)
  have n: "next_sequence 0 = 1"
    by (simp add: next_sequence_eq)
  have f: "encode_frame ([0x17, 1] @ take 10 [0x00, 0x13, 0xa2, 0x00, 0x12, 0x34, 0x56, 0x78, 0xff, 0xfe] @
                         [0x02, 0x44, word_of_int (0x30 + 3), if (1::int) \<noteq> 0 then 5 else 4]) =
           [0x7e, 0, 0x10, 0x17, 1, 0, 0x7d, 0x33, 0xa2, 0, 0x12, 0x34, 0x56, 0x78, 0xff, 0xfe,
            0x02, 0x44, 0x33, 5, 0xa3]"
    by (simp add: encode_frame_def frame_bytes_def fpput_def builder0_def)
  from xbeedev_set_dtr_rts_remote_AT [OF d, of 1] have
    "\<exists>rest. new_frames example_session (snd (xbeedev_set_dtr_rts example_session 1)) =
      [0x7e, 0, 0x10, 0x17, 1, 0, 0x7d, 0x33, 0xa2, 0, 0x12, 0x34, 0x56, 0x78, 0xff, 0xfe,
       0x02, 0x44, 0x33, 5, 0xa3] # rest"
    unfolding s n f by (simp add: s)
  with d show ?thesis
    by (simp only: simp_thms)
qed

subsection \<open>A REQUEST with a stale sequence number\<close>

lemma take_3_append: "take (3 + length p) (a # b # c # p @ q) = a # b # c # p"
  by (simp add: numeral_3_eq_3)

lemma poll_packet_stale:
  assumes "s \<noteq> next_sequence (inSequence xbs)"
  shows "poll_packet xbs client wa ([1, s, 24] @ payload) t =
           (None, if payload = [] then xbs else xbeedev_stats_receive xbs XBEE_STATS_RECEIVE s t,
            client)"
  using assms
  by (cases payload)
     (simp_all add: poll_packet_def Let_def XBEEBOOT_PACKET_TYPE_ACK_def
        XBEEBOOT_PACKET_TYPE_REQUEST_def xbeedev_stats_receive_def)

lemma same_input_stats_receive:
  "same_input xbs (xbeedev_stats_receive (xbeedev_record16Bit xbs a) g s t)"
  "same_input xbs (xbeedev_stats_receive xbs g s t)"
  "same_input xbs (xbeedev_record16Bit xbs a)"
  by (simp_all add: same_input_def xbeedev_stats_receive_def xbeedev_record16Bit_def Let_def)

lemma poll_frame_stale:
  assumes "request_frame frame s payload" and "s \<noteq> next_sequence (inSequence xbs)"
  shows "\<exists>xbs'. poll_frame xbs client wa ws frame t = (None, xbs', client) \<and>
                same_input xbs xbs' \<and> rx (serialDescriptor xbs') = rx (serialDescriptor xbs)"
proof -
  from assms(1) obtain l0 l1 hdr cks where
    frame: "frame = [l0, l1] @ hdr @ [1, s, 24] @ payload @ [cks]"
    and hdr: "hd hdr = 0x90 \<and> length hdr = 12 \<or> hd hdr = 0x10 \<and> length hdr = 14"
    unfolding request_frame_def by blast
  have in16: "inSequence (xbeedev_record16Bit xbs a) = inSequence xbs" for a
    by (simp add: xbeedev_record16Bit_def Let_def)
  have rx: "rx (serialDescriptor (xbeedev_stats_receive (xbeedev_record16Bit xbs a) g q t')) =
              rx (serialDescriptor xbs)"
    "rx (serialDescriptor (xbeedev_stats_receive xbs g q t')) = rx (serialDescriptor xbs)"
    "rx (serialDescriptor (xbeedev_record16Bit xbs a)) = rx (serialDescriptor xbs)" for a g q t'
    by (simp_all add: xbeedev_stats_receive_def xbeedev_record16Bit_def Let_def)
  from hdr show ?thesis
  proof
    assume h: "hd hdr = 0x90 \<and> length hdr = 12"
    then have ne: "hdr \<noteq> []"
      by auto
    have t: "frame ! 2 = 0x90"
      using h ne by (simp add: frame hd_conv_nth nth_append)
    have len: "length frame = 18 + length payload"
      using h by (simp add: frame)
    have pd: "take (3 + length payload) (drop 14 frame) = [1, s, 24] @ payload"
      using h by (simp add: frame take_3_append)
    have ps: "poll_packet (xbeedev_record16Bit xbs a) client wa ([1, s, 24] @ payload) t =
                (None, if payload = [] then xbeedev_record16Bit xbs a
                       else xbeedev_stats_receive (xbeedev_record16Bit xbs a)
                              XBEE_STATS_RECEIVE s t, client)" for a
      using assms(2) by (intro poll_packet_stale) (simp add: in16)
    show ?thesis
      unfolding poll_frame_def Let_def
      by (simp add: t len pd ps same_input_stats_receive rx del: append.simps)
         (simp add: same_input_def)
  next
    assume h: "hd hdr = 0x10 \<and> length hdr = 14"
    then have ne: "hdr \<noteq> []"
      by auto
    have t: "frame ! 2 = 0x10"
      using h ne by (simp add: frame hd_conv_nth nth_append)
    have len: "length frame = 20 + length payload"
      using h by (simp add: frame)
    have pd: "take (3 + length payload) (drop 16 frame) = [1, s, 24] @ payload"
      using h by (simp add: frame take_3_append)
    show ?thesis
      unfolding poll_frame_def Let_def
      by (simp add: t len pd poll_packet_stale [OF assms(2)] same_input_stats_receive rx
            del: append.simps)
         (simp add: same_input_def)
  qed
qed

lemma sendPacket_new_frames:
  "sendPacket xbs pt sq ap data = (rc, xbs') \<Longrightarrow>
   tx (serialDescriptor xbs') = tx (serialDescriptor xbs) @ packet_frames xbs pt sq ap data"
  using sendPacket_tx [of xbs pt sq ap data] by (simp add: packet_frames_def)

lemma xbeedev_poll_stale:
  assumes rf: "request_frame ([0, of_nat (length content)] @ content @ [0xff - sum_list content])
                 s payload"
    and len: "length content \<le> 252"
    and rx: "rx (serialDescriptor xbs) = map Rx (encode_frame content) @ es"
    and stale: "s \<noteq> next_sequence (inSequence xbs)"
  shows "\<exists>xbs'. xbeedev_poll xbs client wa ws = xbeedev_poll xbs' client wa ws \<and>
                same_input xbs xbs' \<and> rx (serialDescriptor xbs') = es"
proof -
  let ?frame = "[0, of_nat (length content)] @ content @ [0xff - sum_list content]"
  let ?x = "set_rx xbs es\<lparr>ticks := ticks xbs + 1\<rparr>"
  have r: "read_frame BeforeFrame (rx (serialDescriptor xbs)) = (Inr ?frame, es)"
    unfolding rx using len by (rule read_frame_encode_frame)
  have c: "frame_checksum ?frame = 0"
    by (rule frame_checksum_encoded)
  have "s \<noteq> next_sequence (inSequence ?x)"
    using stale by simp
  with rf obtain xbs' where p:
    "poll_frame ?x client wa ws ?frame (clock xbs (ticks xbs)) = (None, xbs', client)"
    and s: "same_input ?x xbs'" and e: "rx (serialDescriptor xbs') = rx (serialDescriptor ?x)"
    using poll_frame_stale [of ?frame s payload ?x client wa ws "clock xbs (ticks xbs)"]
    by blast
  have "xbeedev_poll xbs client wa ws = xbeedev_poll xbs' client wa ws"
    using r c p by (rule xbeedev_poll_again)
  moreover from s have "same_input xbs xbs'"
    by (simp add: same_input_def)
  moreover from e have "rx (serialDescriptor xbs') = es"
    by simp
  ultimately show ?thesis
    by blast
qed

lemma session_step_recv_attempts':
  "\<exists>rest. tx (serialDescriptor (fst (snd (recv_attempts n xbs client)))) =
          tx (serialDescriptor xbs) @ rest"
  using session_step_recv_attempts by (rule session_step_tx)

lemma recv_attempts_ack:
  assumes "xbeedev_poll xbs client (- 1) (- 1) = (rc, xbs1, client1)"
    and "rc \<noteq> 0" and "\<not> transportUnusable xbs1" and "inSequence xbs1 \<noteq> 0"
  shows "\<exists>rest. new_frames xbs1 (fst (snd (recv_attempts (Suc n) xbs client))) =
                packet_frames xbs1 0 (inSequence xbs1) (- 1) [] @ rest"
proof -
  obtain ackRc xbs2 where ak:
    "sendPacket xbs1 (word_of_int XBEEBOOT_PACKET_TYPE_ACK) (inSequence xbs1) (- 1) [] =
       (ackRc, xbs2)"
    by (cases "sendPacket xbs1 (word_of_int XBEEBOOT_PACKET_TYPE_ACK) (inSequence xbs1) (- 1) []")
  have a0: "word_of_int XBEEBOOT_PACKET_TYPE_ACK = (0::byte)"
    by (simp add: XBEEBOOT_PACKET_TYPE_ACK_def)
  obtain rest where
    "tx (serialDescriptor (fst (snd (recv_attempts n xbs2 client1)))) =
       tx (serialDescriptor xbs2) @ rest"
    using session_step_recv_attempts' by blast
  then have "tx (serialDescriptor (fst (snd (recv_attempts (Suc n) xbs client)))) =
       tx (serialDescriptor xbs1) @ packet_frames xbs1 0 (inSequence xbs1) (- 1) [] @ rest"
    using assms ak sendPacket_new_frames [OF ak] by (simp add: a0)
  then show ?thesis
    by (simp add: new_frames_def)
qed

lemma send_attempts_ack:
  assumes "sendPacket xbs (word_of_int XBEEBOOT_PACKET_TYPE_REQUEST) sq 23 chunk = (sendRc, xbs1)"
    and "\<not> sendRc < 0"
    and "xbeedev_poll xbs1 None (uint sq) (- 1) = (pollRc, xbs2, client)"
    and "pollRc \<noteq> 0" and "inSequence xbs2 \<noteq> 0"
  shows "\<exists>rest. new_frames xbs2 (snd (send_attempts (Suc n) xbs sq chunk p0)) =
                packet_frames xbs2 0 (inSequence xbs2) (- 1) [] @ rest"
proof -
  obtain ackRc xbs3 where ak:
    "sendPacket xbs2 (word_of_int XBEEBOOT_PACKET_TYPE_ACK) (inSequence xbs2) (- 1) [] =
       (ackRc, xbs3)"
    by (cases "sendPacket xbs2 (word_of_int XBEEBOOT_PACKET_TYPE_ACK) (inSequence xbs2) (- 1) []")
  have a0: "word_of_int XBEEBOOT_PACKET_TYPE_ACK = (0::byte)"
    by (simp add: XBEEBOOT_PACKET_TYPE_ACK_def)
  obtain rest where
    "tx (serialDescriptor (snd (send_attempts n xbs3 sq chunk pollRc))) =
       tx (serialDescriptor xbs3) @ rest"
    using session_step_tx [OF session_step_send_attempts] by blast
  then have "\<exists>rest. tx (serialDescriptor (snd (send_attempts (Suc n) xbs sq chunk p0))) =
       tx (serialDescriptor xbs3) @ rest"
    using assms ak by simp
  then obtain rest' where
    "tx (serialDescriptor (snd (send_attempts (Suc n) xbs sq chunk p0))) =
       tx (serialDescriptor xbs2) @ packet_frames xbs2 0 (inSequence xbs2) (- 1) [] @ rest'"
    using sendPacket_new_frames [OF ak] by (auto simp: a0)
  then show ?thesis
    by (simp add: new_frames_def)
qed

lemma next_sequence_neq: "next_sequence s \<noteq> s"
  by (simp add: next_sequence_eq)

text \<open>
  Claim C2: a received REQUEST for \<^verbatim>\<open>FIRMWARE_REPLY\<close> whose sequence number is not the
  increment of \<^verbatim>\<open>inSequence\<close> is dropped: the dispatch of the frame returns nothing,
  the caller's buffer, the ring with its two cursors, \<^verbatim>\<open>inSequence\<close> and the latch are
  as before, and nothing is handed to the port; when such a frame arrives on the wire
  \<^verbatim>\<open>xbeedev_poll\<close> goes on with the input that follows it. The ACK is sent again by the
  retry loops: after a poll that did not succeed, \<^verbatim>\<open>xbeedev_recv\<close> (unless the
  transport became unusable) and \<^verbatim>\<open>xbeedev_send\<close> next send an ACK packet for
  \<^verbatim>\<open>inSequence\<close>, the last sequence number accepted, when it is not 0. A sequence
  number is never its own increment, so the frame that was just accepted is stale when it
  comes again.
\<close>

theorem stale_request_not_delivered:
  "(request_frame frame s payload \<and> s \<noteq> next_sequence (inSequence xbs) \<longrightarrow>
      (\<exists>xbs'. poll_frame xbs client wa ws frame t = (None, xbs', client) \<and>
              same_input xbs xbs')) \<and>
   (request_frame ([0, of_nat (length content)] @ content @ [0xff - sum_list content]) s payload \<and>
    length content \<le> 252 \<and>
    rx (serialDescriptor xbs) = map Rx (encode_frame content) @ es \<and>
    s \<noteq> next_sequence (inSequence xbs) \<longrightarrow>
      (\<exists>xbs'. xbeedev_poll xbs client wa ws = xbeedev_poll xbs' client wa ws \<and>
              same_input xbs xbs' \<and> rx (serialDescriptor xbs') = es)) \<and>
   (xbeedev_poll xbs client (- 1) (- 1) = (rc, xbs1, client1) \<and> rc \<noteq> 0 \<and>
    \<not> transportUnusable xbs1 \<and> inSequence xbs1 \<noteq> 0 \<longrightarrow>
      (\<exists>rest. new_frames xbs1 (fst (snd (recv_attempts (Suc n) xbs client))) =
              packet_frames xbs1 0 (inSequence xbs1) (- 1) [] @ rest)) \<and>
   (sendPacket xbs (word_of_int XBEEBOOT_PACKET_TYPE_REQUEST) sq 23 chunk = (sendRc, xbs1) \<and>
    \<not> sendRc < 0 \<and> xbeedev_poll xbs1 None (uint sq) (- 1) = (pollRc, xbs2, client2) \<and>
    pollRc \<noteq> 0 \<and> inSequence xbs2 \<noteq> 0 \<longrightarrow>
      (\<exists>rest. new_frames xbs2 (snd (send_attempts (Suc n) xbs sq chunk p0)) =
              packet_frames xbs2 0 (inSequence xbs2) (- 1) [] @ rest)) \<and>
   next_sequence s \<noteq> s"
proof (intro conjI impI)
  assume "request_frame frame s payload \<and> s \<noteq> next_sequence (inSequence xbs)"
  then show "\<exists>xbs'. poll_frame xbs client wa ws frame t = (None, xbs', client) \<and>
                    same_input xbs xbs'"
    using poll_frame_stale [of frame s payload xbs client wa ws t] by blast
next
  assume "request_frame ([0, of_nat (length content)] @ content @ [0xff - sum_list content])
            s payload \<and>
          length content \<le> 252 \<and>
          rx (serialDescriptor xbs) = map Rx (encode_frame content) @ es \<and>
          s \<noteq> next_sequence (inSequence xbs)"
  then show "\<exists>xbs'. xbeedev_poll xbs client wa ws = xbeedev_poll xbs' client wa ws \<and>
                    same_input xbs xbs' \<and> rx (serialDescriptor xbs') = es"
    using xbeedev_poll_stale [of content s payload xbs es client wa ws] by blast
next
  assume "xbeedev_poll xbs client (- 1) (- 1) = (rc, xbs1, client1) \<and> rc \<noteq> 0 \<and>
          \<not> transportUnusable xbs1 \<and> inSequence xbs1 \<noteq> 0"
  then show "\<exists>rest. new_frames xbs1 (fst (snd (recv_attempts (Suc n) xbs client))) =
                    packet_frames xbs1 0 (inSequence xbs1) (- 1) [] @ rest"
    using recv_attempts_ack [of xbs client rc xbs1 client1 n] by blast
next
  assume "sendPacket xbs (word_of_int XBEEBOOT_PACKET_TYPE_REQUEST) sq 23 chunk = (sendRc, xbs1) \<and>
          \<not> sendRc < 0 \<and> xbeedev_poll xbs1 None (uint sq) (- 1) = (pollRc, xbs2, client2) \<and>
          pollRc \<noteq> 0 \<and> inSequence xbs2 \<noteq> 0"
  then show "\<exists>rest. new_frames xbs2 (snd (send_attempts (Suc n) xbs sq chunk p0)) =
                    packet_frames xbs2 0 (inSequence xbs2) (- 1) [] @ rest"
    using send_attempts_ack [of xbs sq chunk sendRc xbs1 pollRc xbs2 client2 n p0] by blast
next
  show "next_sequence s \<noteq> s"
    by (rule next_sequence_neq)
qed

text \<open>
  A REQUEST with the sequence number 5 on the example session, which expects 1; and the ACK
  for 1 that the retry loop of \<^verbatim>\<open>xbeedev_recv\<close> sends after a timeout.
\<close>

theorem stale_request_not_delivered_witness:
  "request_frame [0, 16, 0x90, 0x00, 0x13, 0xa2, 0x00, 0x12, 0x34, 0x56, 0x78, 0xff, 0xfe, 1,
                  1, 5, 24, 0x41, 0] 5 [0x41] \<and>
   5 \<noteq> next_sequence (inSequence example_session) \<and>
   (\<exists>xbs'. poll_frame example_session None (- 1) (- 1)
              [0, 16, 0x90, 0x00, 0x13, 0xa2, 0x00, 0x12, 0x34, 0x56, 0x78, 0xff, 0xfe, 1,
               1, 5, 24, 0x41, 0] \<lparr>tv_sec = 0, tv_usec = 0\<rparr> = (None, xbs', None) \<and>
           same_input example_session xbs') \<and>
   (\<exists>rest. new_frames (example_session\<lparr>inSequence := 1\<rparr>)
             (fst (snd (recv_attempts (Suc 0) (example_session\<lparr>inSequence := 1\<rparr>) None))) =
           [0x7e, 0, 0x10, 0x10, 1, 0, 0x7d, 0x33, 0xa2, 0, 0x12, 0x34, 0x56, 0x78, 0xff, 0xfe,
            0, 0, 0, 1, 0x27] # rest)"
proof -
  let ?F = "[0, 16, 0x90, 0x00, 0x13, 0xa2, 0x00, 0x12, 0x34, 0x56, 0x78, 0xff, 0xfe, 1,
             1, 5, 24, 0x41, 0] :: byte list"
  let ?y = "example_session\<lparr>inSequence := 1\<rparr>"
  have rf: "request_frame ?F 5 [0x41]"
    unfolding request_frame_def
    by (intro exI [of _ 0] exI [of _ 16]
          exI [of _ "[0x90, 0x00, 0x13, 0xa2, 0x00, 0x12, 0x34, 0x56, 0x78, 0xff, 0xfe, 1]"])
       simp
  have st: "5 \<noteq> next_sequence (inSequence example_session)"
    by (simp add: example_session_def next_sequence_eq)
  have a: "\<exists>xbs'. poll_frame example_session None (- 1) (- 1) ?F \<lparr>tv_sec = 0, tv_usec = 0\<rparr> =
                    (None, xbs', None) \<and> same_input example_session xbs'"
    using stale_request_not_delivered
      [where frame = ?F and s = 5 and payload = "[0x41]" and xbs = example_session
         and client = None and wa = "- 1" and ws = "- 1" and t = "\<lparr>tv_sec = 0, tv_usec = 0\<rparr>"]
      rf st
    by blast
  have y: "rx (serialDescriptor ?y) = []" "\<not> transportUnusable ?y" "inSequence ?y \<noteq> 0"
    "\<not> sourceRouteChanged ?y" "txSequence ?y = 0" "\<not> directMode ?y"
    "xbee_address ?y = [0x00, 0x13, 0xa2, 0x00, 0x12, 0x34, 0x56, 0x78, 0xff, 0xfe]"
    "inSequence ?y = 1"
    by (simp_all add: example_session_def example_port_def)
  have p: "xbeedev_poll ?y None (- 1) (- 1) = (- 1, ?y, None)"
    using y(1) by (rule xbeedev_poll_silent)
  have n: "next_sequence 0 = 1"
    by (simp add: next_sequence_eq)
  have f: "packet_frames ?y 0 (inSequence ?y) (- 1) [] =
             [[0x7e, 0, 0x10, 0x10, 1, 0, 0x7d, 0x33, 0xa2, 0, 0x12, 0x34, 0x56, 0x78, 0xff, 0xfe,
               0, 0, 0, 1, 0x27]]"
    unfolding packet_frames_def packet_frame_def y n
    by (simp add: y optional_def encode_frame_def frame_bytes_def fpput_def builder0_def)
  have b: "\<exists>rest. new_frames ?y (fst (snd (recv_attempts (Suc 0) ?y None))) =
             [0x7e, 0, 0x10, 0x10, 1, 0, 0x7d, 0x33, 0xa2, 0, 0x12, 0x34, 0x56, 0x78, 0xff, 0xfe,
              0, 0, 0, 1, 0x27] # rest"
    using stale_request_not_delivered
      [where xbs = ?y and client = None and rc = "- 1" and ?xbs1.0 = ?y and ?client1.0 = None
         and n = 0]
      p y(2,3)
    unfolding f by simp
  from rf st a b show ?thesis
    by (simp only: simp_thms)
qed

subsection \<open>The latch of an unusable transport\<close>


















subsection \<open>The frame codec, from the encoder to the decoder\<close>

text \<open>
  Claim C4, amended: for every content whose frame fits the 256 bytes of the encoder's
  buffer (escaped content and checksum take at most 251 bytes, so the content has at most
  250 bytes), the decoder reads from the encoded frame the two length bytes, the content
  and the checksum, leaves the input that follows untouched, and the checksum test
  passes; the encoded frame starts with \<open>0x7e\<close> and holds \<open>0x7e\<close> nowhere else, and
  after the delimiter every byte of the length, the content and the checksum is written
  as \<^verbatim>\<open>fpput\<close> writes it: a byte \<open>0x7d\<close>, \<open>0x7e\<close>, \<open>0x11\<close> or \<open>0x13\<close> as
  \<open>0x7d\<close> followed by the byte XOR \<open>0x20\<close>, any other byte as itself. Every frame
  that \<^verbatim>\<open>sendAPIRequest\<close> hands to the port is such an encoding: of the content built
  from its arguments, after that of the Create Source Route frame when one is due.
\<close>

theorem encode_frame_round_trip:
  assumes "frame_fits (fold fpput content builder0)"
  shows "read_frame BeforeFrame (map Rx (encode_frame content) @ es) =
           (Inr ([0, of_nat (length content)] @ content @ [0xff - sum_list content]), es) \<and>
         frame_checksum ([0, of_nat (length content)] @ content @ [0xff - sum_list content]) = 0 \<and>
         encode_frame content ! 0 = 0x7e \<and>
         count_list (encode_frame content) 0x7e = 1 \<and>
         tl (encode_frame content) =
           concat (map escape ([0, of_nat (length content)] @ content @ [0xff - sum_list content])) \<and>
         escape v = (if v = 0x7d \<or> v = 0x7e \<or> v = 0x11 \<or> v = 0x13
                     then [0x7d, v XOR 0x20] else [v]) \<and>
         new_frames xbs (snd (sendAPIRequest xbs apiType txSeq apiOption pp1 pp2 pt sq ap g data)) =
           (if apiType \<noteq> 0x08 \<and> apiType \<noteq> 0x21 \<and> sourceRouteChanged xbs
            then [route_frame xbs] else []) @
           (if apiType \<noteq> 0x08 \<and> apiType \<noteq> 0x21 \<and> sourceRouteChanged xbs \<and>
               tx_result (serialDescriptor xbs) (length (tx (serialDescriptor xbs))) \<noteq> 0
            then []
            else [encode_frame (api_content xbs apiType txSeq apiOption pp1 pp2 pt sq ap data)])"
proof -
  have "new_frames xbs (snd (sendAPIRequest xbs apiType txSeq apiOption pp1 pp2 pt sq ap g data)) =
           (if apiType \<noteq> 0x08 \<and> apiType \<noteq> 0x21 \<and> sourceRouteChanged xbs
            then [route_frame xbs] else []) @
           (if apiType \<noteq> 0x08 \<and> apiType \<noteq> 0x21 \<and> sourceRouteChanged xbs \<and>
               tx_result (serialDescriptor xbs) (length (tx (serialDescriptor xbs))) \<noteq> 0
            then []
            else [encode_frame (api_content xbs apiType txSeq apiOption pp1 pp2 pt sq ap data)])"
    unfolding new_frames_def sendAPIRequest_tx by simp
  moreover have "read_frame BeforeFrame (map Rx (encode_frame content) @ es) =
           (Inr ([0, of_nat (length content)] @ content @ [0xff - sum_list content]), es) \<and>
         frame_checksum ([0, of_nat (length content)] @ content @ [0xff - sum_list content]) = 0 \<and>
         encode_frame content ! 0 = 0x7e \<and>
         count_list (encode_frame content) 0x7e = 1 \<and>
         tl (encode_frame content) =
           concat (map escape ([0, of_nat (length content)] @ content @ [0xff - sum_list content])) \<and>
         escape v = (if v = 0x7d \<or> v = 0x7e \<or> v = 0x11 \<or> v = 0x13
                     then [0x7d, v XOR 0x20] else [v])"
    using frame_fits_length [OF assms]
    by (simp add: read_frame_encode_frame frame_checksum_encoded [of 0, simplified]
          count_list_encode_frame) (simp add: encode_frame_eq escape_eq)
  ultimately show ?thesis
    by (simp only: simp_thms)
qed

text \<open>The content \<open>0x7e 0x11 0x42\<close>, encoded and read back.\<close>

theorem encode_frame_round_trip_witness:
  "frame_fits (fold fpput [0x7e, 0x11, 0x42] builder0) \<and>
   read_frame BeforeFrame (map Rx (encode_frame [0x7e, 0x11, 0x42])) =
     (Inr [0, 3, 0x7e, 0x11, 0x42, 0x2e], []) \<and>
   frame_checksum [0, 3, 0x7e, 0x11, 0x42, 0x2e] = 0 \<and>
   count_list (encode_frame [0x7e, 0x11, 0x42]) 0x7e = 1 \<and>
   encode_frame [0x7e, 0x11, 0x42] = [0x7e, 0, 3, 0x7d, 0x5e, 0x7d, 0x31, 0x42, 0x2e]"
proof -
  have fits: "frame_fits (fold fpput [0x7e, 0x11, 0x42] builder0)"
    by (simp add: frame_fits_def fpput_def builder0_def)
  have e: "encode_frame [0x7e, 0x11, 0x42] = [0x7e, 0, 3, 0x7d, 0x5e, 0x7d, 0x31, 0x42, 0x2e]"
    by (simp add: encode_frame_def frame_bytes_def fpput_def builder0_def)
  note r = encode_frame_round_trip [OF fits, where es = "[]"]
  from r [THEN conjunct1]
  have a: "read_frame BeforeFrame (map Rx (encode_frame [0x7e, 0x11, 0x42])) =
             (Inr [0, 3, 0x7e, 0x11, 0x42, 0x2e], [])"
    by simp
  from r [THEN conjunct2, THEN conjunct1]
  have b: "frame_checksum [0, 3, 0x7e, 0x11, 0x42, 0x2e] = 0"
    by simp
  from r [THEN conjunct2, THEN conjunct2, THEN conjunct2, THEN conjunct1]
  have c: "count_list (encode_frame [0x7e, 0x11, 0x42]) 0x7e = 1" .
  from fits a b c e show ?thesis
    by (simp only: simp_thms)
qed

end
